theory Spec2Isabelle
  imports Complex_Main "HOL-Library.Log_Nat" "HOL-Library.Sublist" "HOL-Library.AList"
begin

section \<open>HexaGate: admission control, embedded from the TypeScript source\<close>

text \<open>
  The development follows two source files: the security module
  (\<^verbatim>\<open>src/security/index.ts\<close>: \<^verbatim>\<open>PolicyManager\<close>, \<^verbatim>\<open>PKIManager\<close>) and the
  routing module (\<^verbatim>\<open>UnifiedRouter\<close> and its network handlers), with the types of
  \<^verbatim>\<open>src/types/index.ts\<close>. Classes become records of their fields, methods become
  functions that take the object and return the result (and the updated object where the
  method mutates it), \<^verbatim>\<open>undefined\<close>/\<^verbatim>\<open>null\<close> become \<open>None\<close>, and reads of the
  environment (\<^verbatim>\<open>new Date()\<close>, generated identifiers) become parameters.
\<close>

subsection \<open>JavaScript numbers, as far as the version comparison needs them\<close>

text \<open>
  A JavaScript number is an IEEE 754 binary64 value. The finite ones are rationals; the
  sign of zero is not observable by the code modelled here (\<^verbatim>\<open>x < 0\<close> is false for both
  zeros), so both zeros are \<open>Finite 0\<close>.
\<close>

datatype js_number = Finite rat | PosInfinity | NegInfinity | NaN

text \<open>\<open>floor_log2 x\<close> is the exponent \<open>e\<close> with \<open>2\<^sup>e \<le> x < 2\<^sup>e\<^sup>+\<^sup>1\<close>, for \<open>x > 0\<close>.\<close>

definition floor_log2 :: "rat \<Rightarrow> int" where
  "floor_log2 x = (case quotient_of x of (p, q) \<Rightarrow>
     let d = bitlen p - bitlen q in if 2 powi d \<le> x then d else d - 1)"

definition round_half_even :: "rat \<Rightarrow> int" where
  "round_half_even x = (let n = \<lfloor>x\<rfloor>; r = x - of_int n in
     if r < 1 / 2 then n else if 1 / 2 < r then n + 1 else if even n then n else n + 1)"

text \<open>
  Rounding of a real (here: rational) value to binary64, to nearest with ties to even:
  53 significant bits, exponents from \<open>-1022\<close> (below it the spacing stays \<open>2\<^sup>-\<^sup>1\<^sup>0\<^sup>7\<^sup>4\<close>:
  subnormals), overflow to infinity once the rounded magnitude \<open>n * 2\<^sup>e\<^sup>-\<^sup>5\<^sup>2\<close> reaches
  \<open>2\<^sup>1\<^sup>0\<^sup>2\<^sup>4\<close>, which is when \<open>e \<ge> 1024\<close>, or \<open>e = 1023\<close> and the significand rounded up
  to \<open>n = 2\<^sup>5\<^sup>3\<close>.
\<close>

definition to_binary64 :: "rat \<Rightarrow> js_number" where
  "to_binary64 x = (if x = 0 then Finite 0 else
     let e = max (floor_log2 \<bar>x\<bar>) (- 1022);
         ulp = 2 powi (e - 52);
         n = round_half_even (\<bar>x\<bar> / ulp)
     in if 1024 \<le> e \<or> (e = 1023 \<and> n = 2 ^ 53)
        then (if 0 < x then PosInfinity else NegInfinity)
        else Finite (sgn x * (of_int n * ulp)))"

text \<open>The \<^verbatim>\<open>-\<close> of two numbers: exact difference, rounded; the IEEE cases otherwise.\<close>

fun js_minus :: "js_number \<Rightarrow> js_number \<Rightarrow> js_number" where
  "js_minus (Finite a) (Finite b) = to_binary64 (a - b)"
| "js_minus NaN _ = NaN"
| "js_minus _ NaN = NaN"
| "js_minus PosInfinity PosInfinity = NaN"
| "js_minus NegInfinity NegInfinity = NaN"
| "js_minus PosInfinity _ = PosInfinity"
| "js_minus NegInfinity _ = NegInfinity"
| "js_minus (Finite a) PosInfinity = NegInfinity"
| "js_minus (Finite a) NegInfinity = PosInfinity"

text \<open>\<^verbatim>\<open>x < 0\<close>; every comparison with \<^verbatim>\<open>NaN\<close> is false.\<close>

fun js_lt_zero :: "js_number \<Rightarrow> bool" where
  "js_lt_zero (Finite a) = (a < 0)"
| "js_lt_zero NegInfinity = True"
| "js_lt_zero PosInfinity = False"
| "js_lt_zero NaN = False"

subsection \<open>Types of the security module\<close>

datatype rule_type = AntiDowngrade | CertificateRule | NetworkRule | CustomRule

datatype rule_action = Allow | Deny | Prompt

datatype enforcement_level = Warn | Block | Strict

text \<open>
  \<^verbatim>\<open>metadata?: Record<string, unknown>\<close>: the code reads two keys of the bag only, each
  through a cast that fixes its type (\<^verbatim>\<open>minVersion as string\<close>,
  \<^verbatim>\<open>weakCiphers as string[]\<close>); the record holds those two, absent or present.
\<close>

record rule_metadata =
  minVersion :: "string option"
  weakCiphers :: "string list option"

record SecurityRule =
  rule_type :: rule_type
  condition :: string
  action :: rule_action
  metadata :: "rule_metadata option"

record SecurityPolicy =
  policy_id :: string
  policy_name :: string
  rules :: "SecurityRule list"
  enforcementLevel :: enforcement_level

text \<open>
  A \<^verbatim>\<open>Date\<close> holds a time value in milliseconds since the epoch (an integer), or is an
  invalid date (time value \<^verbatim>\<open>NaN\<close>). \<^verbatim>\<open>a > b\<close> and \<^verbatim>\<open>a < b\<close> on dates compare the time
  values, and are false when either is \<^verbatim>\<open>NaN\<close>.
\<close>

datatype js_date = DateTime int | InvalidDate

fun date_gt :: "js_date \<Rightarrow> js_date \<Rightarrow> bool" where
  "date_gt (DateTime a) (DateTime b) = (a > b)"
| "date_gt _ _ = False"

fun date_lt :: "js_date \<Rightarrow> js_date \<Rightarrow> bool" where
  "date_lt (DateTime a) (DateTime b) = (a < b)"
| "date_lt _ _ = False"

record Certificate =
  cert_id :: string
  subject :: string
  issuer :: string
  publicKey :: string
  serialNumber :: string
  validFrom :: js_date
  validTo :: js_date
  isPrivate :: bool
  trusted :: bool

record ConnectionContext =
  url :: string
  tlsVersion :: "string option"
  cipherSuite :: "string option"
  certificate :: "Certificate option"
  certificateExpired :: "bool option"

record PolicyViolation =
  policyId :: string
  policyName :: string
  rule :: SecurityRule
  message :: string

record PolicyEvaluationResult =
  allowed :: bool
  violations :: "PolicyViolation list"
  warnings :: "PolicyViolation list"

text \<open>
  \<^verbatim>\<open>policies: Map<string, SecurityPolicy>\<close> is read by key only in what follows;
  \<^verbatim>\<open>activePolicies: Set<string>\<close> is iterated, and a JavaScript \<^verbatim>\<open>Set\<close> iterates in
  insertion order, so it is a list without repetitions, new elements at the end.
\<close>

record PolicyManager =
  policies :: "string \<rightharpoonup> SecurityPolicy"
  activePolicies :: "string list"

subsection \<open>PolicyManager\<close>

definition set_add :: "'a \<Rightarrow> 'a list \<Rightarrow> 'a list" where
  "set_add x xs = (if x \<in> set xs then xs else xs @ [x])"

text \<open>The three rules of the default policy, in the order of the source.\<close>

definition tlsFloorRule :: SecurityRule where
  "tlsFloorRule =
     \<lparr>rule_type = AntiDowngrade, condition = ''tls_version < 1.2'', action = Deny,
      metadata = Some \<lparr>minVersion = Some ''1.2'', weakCiphers = None\<rparr>\<rparr>"

definition weakCipherRule :: SecurityRule where
  "weakCipherRule =
     \<lparr>rule_type = AntiDowngrade, condition = ''cipher_suite in weak_ciphers'', action = Deny,
      metadata = Some \<lparr>minVersion = None,
                       weakCiphers = Some [''RC4'', ''DES'', ''3DES'', ''MD5'']\<rparr>\<rparr>"

definition certificateExpiredRule :: SecurityRule where
  "certificateExpiredRule =
     \<lparr>rule_type = AntiDowngrade, condition = ''certificate_expired'', action = Deny,
      metadata = None\<rparr>"

definition antiDowngradePolicy :: SecurityPolicy where
  "antiDowngradePolicy =
     \<lparr>policy_id = ''default-anti-downgrade'',
      policy_name = ''Anti-Downgrade Protection'',
      rules = [tlsFloorRule, weakCipherRule, certificateExpiredRule],
      enforcementLevel = Strict\<rparr>"

definition initializeDefaultPolicies :: "PolicyManager \<Rightarrow> PolicyManager" where
  "initializeDefaultPolicies pm =
     \<lparr>policies = (policies pm)(policy_id antiDowngradePolicy \<mapsto> antiDowngradePolicy),
      activePolicies = set_add (policy_id antiDowngradePolicy) (activePolicies pm)\<rparr>"

text \<open>The constructor: both fields empty, then \<^verbatim>\<open>initializeDefaultPolicies()\<close>.\<close>

definition new_PolicyManager :: PolicyManager where
  "new_PolicyManager =
     initializeDefaultPolicies \<lparr>policies = Map.empty, activePolicies = []\<rparr>"

text \<open>
  \<^verbatim>\<open>createPolicy\<close>; the identifier \<^verbatim>\<open>generatePolicyId()\<close> builds from the clock and
  \<^verbatim>\<open>Math.random()\<close> is the parameter \<open>new_id\<close>. The enforcement level defaults to
  \<^verbatim>\<open>'warn'\<close> when the argument is absent.
\<close>

definition createPolicy ::
  "string \<Rightarrow> string \<Rightarrow> SecurityRule list \<Rightarrow> enforcement_level option \<Rightarrow> PolicyManager
     \<Rightarrow> SecurityPolicy \<times> PolicyManager" where
  "createPolicy new_id nm rs lvl pm =
     (let policy = \<lparr>policy_id = new_id, policy_name = nm, rules = rs,
                     enforcementLevel = (case lvl of None \<Rightarrow> Warn | Some l \<Rightarrow> l)\<rparr>
      in (policy, pm\<lparr>policies := (policies pm)(policy_id policy \<mapsto> policy)\<rparr>))"

definition getPolicy :: "string \<Rightarrow> PolicyManager \<Rightarrow> SecurityPolicy option" where
  "getPolicy i pm = policies pm i"

definition activatePolicy :: "string \<Rightarrow> PolicyManager \<Rightarrow> bool \<times> PolicyManager" where
  "activatePolicy i pm =
     (if policies pm i = None then (False, pm)
      else (True, pm\<lparr>activePolicies := set_add i (activePolicies pm)\<rparr>))"

definition deactivatePolicy :: "string \<Rightarrow> PolicyManager \<Rightarrow> bool \<times> PolicyManager" where
  "deactivatePolicy i pm =
     (i \<in> set (activePolicies pm), pm\<lparr>activePolicies := removeAll i (activePolicies pm)\<rparr>)"

definition isPolicyActive :: "string \<Rightarrow> PolicyManager \<Rightarrow> bool" where
  "isPolicyActive i pm = (i \<in> set (activePolicies pm))"

definition removePolicy :: "string \<Rightarrow> PolicyManager \<Rightarrow> bool \<times> PolicyManager" where
  "removePolicy i pm =
     (policies pm i \<noteq> None,
      \<lparr>policies = (policies pm)(i := None),
       activePolicies = removeAll i (activePolicies pm)\<rparr>)"

text \<open>
  \<^verbatim>\<open>getActivePolicies\<close>: the active identifiers in order, each looked up, the
  \<^verbatim>\<open>undefined\<close> lookups filtered out.
\<close>

definition getActivePolicies :: "PolicyManager \<Rightarrow> SecurityPolicy list" where
  "getActivePolicies pm = List.map_filter (policies pm) (activePolicies pm)"

subsection \<open>Rule evaluation\<close>

definition is_digit :: "char \<Rightarrow> bool" where
  "is_digit c = (c \<in> set ''0123456789'')"

definition digit_value :: "char \<Rightarrow> nat" where
  "digit_value c = of_char c - 48"

definition digits_value :: "string \<Rightarrow> nat" where
  "digits_value ds = foldl (\<lambda>acc c. 10 * acc + digit_value c) 0 ds"

text \<open>
  \<^verbatim>\<open>v.match(/(\d+)\.?(\d+)?/)\<close>: the match starts at the first digit of \<open>v\<close> (no match
  without one); group 1 is the whole run of digits there (greedy, and nothing after it is
  mandatory, so it never gives a digit back); then a dot if one follows; group 2 is the run
  of digits after that, \<^verbatim>\<open>undefined\<close> when it is empty.
\<close>

definition version_match :: "string \<Rightarrow> (string \<times> string option) option" where
  "version_match v =
     (case dropWhile (\<lambda>c. \<not> is_digit c) v of
        [] \<Rightarrow> None
      | c # cs \<Rightarrow>
          let major = takeWhile is_digit (c # cs);
              after_major = dropWhile is_digit (c # cs);
              after_dot = (case after_major of
                             [] \<Rightarrow> []
                           | d # ds \<Rightarrow> if d = CHR ''.'' then ds else d # ds);
              minor = takeWhile is_digit after_dot
          in Some (major, if minor = [] then None else Some minor))"

text \<open>
  \<^verbatim>\<open>parseFloat\<close> of the string \<open>ip.fp\<close>, both runs of decimal digits, \<open>ip\<close> not empty:
  the number nearest to the decimal value \<open>ip.fp\<close>.
\<close>

definition parseFloat_decimal :: "string \<Rightarrow> string \<Rightarrow> js_number" where
  "parseFloat_decimal ip fp =
     to_binary64 (of_nat (digits_value (ip @ fp)) / 10 ^ length fp)"

definition parseVersion :: "string \<Rightarrow> js_number" where
  "parseVersion v =
     (case version_match v of
        None \<Rightarrow> Finite 0
      | Some (major, minor) \<Rightarrow>
          parseFloat_decimal major (case minor of None \<Rightarrow> ''0'' | Some m \<Rightarrow> m))"

definition compareTlsVersions :: "string \<Rightarrow> string \<Rightarrow> js_number" where
  "compareTlsVersions version minV = js_minus (parseVersion version) (parseVersion minV)"

text \<open>\<^verbatim>\<open>s.includes(w)\<close>: \<open>w\<close> occurs in \<open>s\<close> as a contiguous substring.\<close>

fun includes_str :: "string \<Rightarrow> string \<Rightarrow> bool" where
  "includes_str [] w = (w = [])"
| "includes_str (c # cs) w = (prefix w (c # cs) \<or> includes_str cs w)"

text \<open>
  \<^verbatim>\<open>evaluateAntiDowngrade\<close>: three \<^verbatim>\<open>if\<close> statements in sequence; the first whose
  condition text matches and whose test fires returns its message (\<open>tls_floor_check\<close> and
  \<open>weak_cipher_check\<close> are the first two). A string in a condition
  (\<^verbatim>\<open>context.tlsVersion && ...\<close>) counts as true when present and not empty; an optional
  boolean when present and \<^verbatim>\<open>true\<close>.
\<close>

definition tls_floor_check :: "SecurityRule \<Rightarrow> ConnectionContext \<Rightarrow> string option" where
  "tls_floor_check r ctx =
     (if condition r = ''tls_version < 1.2'' then
        (let minV = (case metadata r of
                       None \<Rightarrow> ''1.2''
                     | Some m \<Rightarrow> (case minVersion m of None \<Rightarrow> ''1.2'' | Some s \<Rightarrow> s))
         in case tlsVersion ctx of
              None \<Rightarrow> None
            | Some v \<Rightarrow>
                if v \<noteq> [] \<and> js_lt_zero (compareTlsVersions v minV)
                then Some (''TLS version '' @ v @ '' is below minimum '' @ minV)
                else None)
      else None)"

definition weak_cipher_check :: "SecurityRule \<Rightarrow> ConnectionContext \<Rightarrow> string option" where
  "weak_cipher_check r ctx =
     (if condition r = ''cipher_suite in weak_ciphers'' then
        (let weak = (case metadata r of
                       None \<Rightarrow> []
                     | Some m \<Rightarrow> (case weakCiphers m of None \<Rightarrow> [] | Some ws \<Rightarrow> ws))
         in case cipherSuite ctx of
              None \<Rightarrow> None
            | Some cs \<Rightarrow>
                if cs \<noteq> [] \<and> list_ex (\<lambda>w. includes_str cs w) weak
                then Some (''Weak cipher suite detected: '' @ cs)
                else None)
      else None)"

definition evaluateAntiDowngrade :: "SecurityRule \<Rightarrow> ConnectionContext \<Rightarrow> string option" where
  "evaluateAntiDowngrade r ctx =
     (case tls_floor_check r ctx of
        Some msg \<Rightarrow> Some msg
      | None \<Rightarrow>
          (case weak_cipher_check r ctx of
             Some msg \<Rightarrow> Some msg
           | None \<Rightarrow>
               if condition r = ''certificate_expired'' \<and> certificateExpired ctx = Some True
               then Some ''Certificate has expired''
               else None))"

definition evaluateCertificate :: "SecurityRule \<Rightarrow> ConnectionContext \<Rightarrow> string option" where
  "evaluateCertificate r ctx =
     (case certificate ctx of
        None \<Rightarrow> None
      | Some cert \<Rightarrow>
          if condition r = ''untrusted'' \<and> \<not> trusted cert
          then Some ''Certificate is not trusted''
          else None)"

definition evaluateRule :: "SecurityRule \<Rightarrow> ConnectionContext \<Rightarrow> string option" where
  "evaluateRule r ctx =
     (case rule_type r of
        AntiDowngrade \<Rightarrow> evaluateAntiDowngrade r ctx
      | CertificateRule \<Rightarrow> evaluateCertificate r ctx
      | _ \<Rightarrow> None)"

text \<open>
  The body of the inner loop of \<^verbatim>\<open>evaluateConnection\<close> for one rule. \<^verbatim>\<open>if (violation)\<close>
  is false for \<^verbatim>\<open>null\<close> and for the empty string.
\<close>

definition mk_violation :: "SecurityPolicy \<Rightarrow> SecurityRule \<Rightarrow> string \<Rightarrow> PolicyViolation" where
  "mk_violation p r msg =
     \<lparr>policyId = policy_id p, policyName = policy_name p, rule = r, message = msg\<rparr>"

definition evaluate_one ::
  "SecurityPolicy \<Rightarrow> ConnectionContext \<Rightarrow> PolicyEvaluationResult \<Rightarrow> SecurityRule
     \<Rightarrow> PolicyEvaluationResult" where
  "evaluate_one p ctx res r =
     (case evaluateRule r ctx of
        None \<Rightarrow> res
      | Some msg \<Rightarrow>
          if msg = [] then res
          else if action r = Deny \<and> enforcementLevel p \<noteq> Warn
          then res\<lparr>allowed := False, violations := violations res @ [mk_violation p r msg]\<rparr>
          else res\<lparr>warnings := warnings res @ [mk_violation p r msg]\<rparr>)"

text \<open>The two nested \<^verbatim>\<open>for ... of\<close> loops, over the rules of a policy and over the policies.\<close>

fun evaluate_rules ::
  "SecurityPolicy \<Rightarrow> ConnectionContext \<Rightarrow> SecurityRule list \<Rightarrow> PolicyEvaluationResult
     \<Rightarrow> PolicyEvaluationResult" where
  "evaluate_rules p ctx [] res = res"
| "evaluate_rules p ctx (r # rs) res = evaluate_rules p ctx rs (evaluate_one p ctx res r)"

fun evaluate_policies ::
  "ConnectionContext \<Rightarrow> SecurityPolicy list \<Rightarrow> PolicyEvaluationResult
     \<Rightarrow> PolicyEvaluationResult" where
  "evaluate_policies ctx [] res = res"
| "evaluate_policies ctx (p # ps) res =
     evaluate_policies ctx ps (evaluate_rules p ctx (rules p) res)"

definition evaluateConnection :: "PolicyManager \<Rightarrow> ConnectionContext \<Rightarrow> PolicyEvaluationResult" where
  "evaluateConnection pm ctx =
     evaluate_policies ctx (getActivePolicies pm)
       \<lparr>allowed = True, violations = [], warnings = []\<rparr>"

text \<open>
  What one rule adds to the violations and to the warnings of the result: the two lists
  the loops above append, rule by rule. They are used to state what the loops compute.
\<close>

definition rule_violations ::
  "SecurityPolicy \<Rightarrow> ConnectionContext \<Rightarrow> SecurityRule \<Rightarrow> PolicyViolation list" where
  "rule_violations p ctx r =
     (case evaluateRule r ctx of
        None \<Rightarrow> []
      | Some msg \<Rightarrow>
          if msg \<noteq> [] \<and> action r = Deny \<and> enforcementLevel p \<noteq> Warn
          then [mk_violation p r msg] else [])"


definition policy_violations :: "ConnectionContext \<Rightarrow> SecurityPolicy \<Rightarrow> PolicyViolation list" where
  "policy_violations ctx p = concat (map (rule_violations p ctx) (rules p))"


subsection \<open>PKIManager\<close>

text \<open>
  \<^verbatim>\<open>trustedIssuers: Set<string>\<close> is only tested for membership, so it is a set.
  \<^verbatim>\<open>certificates\<close> is not read by \<^verbatim>\<open>verifyCertificate\<close>.
\<close>

record PKIManager =
  certificates :: "string \<rightharpoonup> Certificate"
  trustedIssuers :: "string set"

record CertificateVerificationResult =
  valid :: bool
  result_trusted :: bool
  errors :: "string list"
  result_warnings :: "string list"

definition new_PKIManager :: PKIManager where
  "new_PKIManager = \<lparr>certificates = Map.empty, trustedIssuers = {}\<rparr>"

definition addTrustedIssuer :: "string \<Rightarrow> PKIManager \<Rightarrow> PKIManager" where
  "addTrustedIssuer i pki = pki\<lparr>trustedIssuers := insert i (trustedIssuers pki)\<rparr>"

definition removeTrustedIssuer :: "string \<Rightarrow> PKIManager \<Rightarrow> bool \<times> PKIManager" where
  "removeTrustedIssuer i pki =
     (i \<in> trustedIssuers pki, pki\<lparr>trustedIssuers := trustedIssuers pki - {i}\<rparr>)"

definition isTrustedIssuer :: "string \<Rightarrow> PKIManager \<Rightarrow> bool" where
  "isTrustedIssuer i pki = (i \<in> trustedIssuers pki)"

text \<open>
  \<^verbatim>\<open>verifyCertificate\<close>; \<open>now\<close> is the time value of \<^verbatim>\<open>new Date()\<close>, which is always
  a valid date. The three \<^verbatim>\<open>if\<close> statements run in sequence on the same result object.
\<close>

definition verifyCertificate ::
  "PKIManager \<Rightarrow> int \<Rightarrow> Certificate \<Rightarrow> CertificateVerificationResult" where
  "verifyCertificate pki now cert =
     (let r0 = \<lparr>valid = True, result_trusted = False, errors = [], result_warnings = []\<rparr>;
          r1 = (if date_gt (validFrom cert) (DateTime now)
                then r0\<lparr>valid := False, errors := errors r0 @ [''Certificate is not yet valid'']\<rparr>
                else r0);
          r2 = (if date_lt (validTo cert) (DateTime now)
                then r1\<lparr>valid := False, errors := errors r1 @ [''Certificate has expired'']\<rparr>
                else r1)
      in if issuer cert \<in> trustedIssuers pki \<or> isPrivate cert
         then r2\<lparr>result_trusted := True\<rparr>
         else r2\<lparr>result_warnings :=
                   result_warnings r2 @ [''Certificate issuer is not in trusted list'']\<rparr>)"

subsection \<open>Types of the routing module\<close>

datatype NetworkType = Clearnet | Tor | I2P | GNUnet | DVPN | Custom

text \<open>The string a \<^verbatim>\<open>NetworkType\<close> is at run time, as template literals print it.\<close>

fun network_name :: "NetworkType \<Rightarrow> string" where
  "network_name Clearnet = ''clearnet''"
| "network_name Tor = ''tor''"
| "network_name I2P = ''i2p''"
| "network_name GNUnet = ''gnunet''"
| "network_name DVPN = ''dvpn''"
| "network_name Custom = ''custom''"

datatype SecurityLevel = Standard | Elevated | Maximum

datatype ConnectionState = Disconnected | Connecting | Connected | ErrorState

text \<open>
  \<^verbatim>\<open>NetworkConfig\<close>. The option bag \<^verbatim>\<open>options?: Record<string, unknown>\<close> is read at
  one key, as a string (\<^verbatim>\<open>endpoint\<close>, by the dVPN handler): a list of key and value.
\<close>

record NetworkConfig =
  net_type :: NetworkType
  enabled :: bool
  proxy :: "string option"
  port :: "int option"
  options :: "(string \<times> string) list option"

text \<open>
  \<^verbatim>\<open>Partial<NetworkConfig>\<close>, the constructors' argument: every property may be absent.
  \<open>spread d c\<close> is the object literal \<^verbatim>\<open>{ ...d, ...c }\<close>: the properties \<open>c\<close> has
  replace those of the defaults \<open>d\<close>.
\<close>

record NetworkConfig_partial =
  p_type :: "NetworkType option"
  p_enabled :: "bool option"
  p_proxy :: "string option"
  p_port :: "int option"
  p_options :: "(string \<times> string) list option"

definition spread :: "NetworkConfig \<Rightarrow> NetworkConfig_partial option \<Rightarrow> NetworkConfig" where
  "spread d c =
     (case c of
        None \<Rightarrow> d
      | Some c \<Rightarrow>
          \<lparr>net_type = (case p_type c of None \<Rightarrow> net_type d | Some t \<Rightarrow> t),
           enabled = (case p_enabled c of None \<Rightarrow> enabled d | Some b \<Rightarrow> b),
           proxy = (case p_proxy c of None \<Rightarrow> proxy d | Some x \<Rightarrow> Some x),
           port = (case p_port c of None \<Rightarrow> port d | Some x \<Rightarrow> Some x),
           options = (case p_options c of None \<Rightarrow> options d | Some x \<Rightarrow> Some x)\<rparr>)"

text \<open>
  A call of a method either returns or throws; what is thrown is an \<^verbatim>\<open>Error\<close> object
  with its message, or some other value (\<^verbatim>\<open>catch\<close> tells them apart with
  \<^verbatim>\<open>instanceof Error\<close>).
\<close>

datatype thrown = ErrorObject string | OtherValue

datatype 'a outcome = Returned 'a | Thrown thrown

text \<open>
  \<^verbatim>\<open>NetworkHandler\<close> is an exported abstract class: \<^verbatim>\<open>config\<close> and \<^verbatim>\<open>state\<close> are
  its fields; \<^verbatim>\<open>connect\<close>, \<^verbatim>\<open>disconnect\<close> and \<^verbatim>\<open>route\<close> are abstract, and
  \<^verbatim>\<open>getState\<close>, \<^verbatim>\<open>getType\<close> and \<^verbatim>\<open>isEnabled\<close> have a body in the base class that
  a subclass may override. Every call of a method on a handler is a virtual call, so a
  handler carries its own implementation of all six. An implementation of the first three
  reads the connection state, leaves a new one, and returns or throws (an \<^verbatim>\<open>async\<close>
  method that rejects is a throw at the caller's \<^verbatim>\<open>await\<close>); an implementation of the
  three accessors reads the two fields and returns or throws. A promise that never settles
  is outside the model: every implementation here is a total function.
\<close>

record NetworkHandler =
  config :: NetworkConfig
  state :: ConnectionState
  getState_impl :: "NetworkConfig \<Rightarrow> ConnectionState \<Rightarrow> ConnectionState outcome"
  getType_impl :: "NetworkConfig \<Rightarrow> ConnectionState \<Rightarrow> NetworkType outcome"
  isEnabled_impl :: "NetworkConfig \<Rightarrow> ConnectionState \<Rightarrow> bool outcome"
  connect_impl :: "ConnectionState \<Rightarrow> bool outcome \<times> ConnectionState"
  disconnect_impl :: "ConnectionState \<Rightarrow> unit outcome \<times> ConnectionState"
  route_impl :: "ConnectionState \<Rightarrow> string \<Rightarrow> string outcome \<times> ConnectionState"

text \<open>The bodies of the three accessors in the base class.\<close>

definition base_getState :: "NetworkConfig \<Rightarrow> ConnectionState \<Rightarrow> ConnectionState outcome" where
  "base_getState c s = Returned s"

definition base_getType :: "NetworkConfig \<Rightarrow> ConnectionState \<Rightarrow> NetworkType outcome" where
  "base_getType c s = Returned (net_type c)"

definition base_isEnabled :: "NetworkConfig \<Rightarrow> ConnectionState \<Rightarrow> bool outcome" where
  "base_isEnabled c s = Returned (enabled c)"

text \<open>The calls \<^verbatim>\<open>h.getState()\<close>, \<^verbatim>\<open>h.getType()\<close>, \<^verbatim>\<open>h.isEnabled()\<close> and the rest.\<close>

definition getState :: "NetworkHandler \<Rightarrow> ConnectionState outcome" where
  "getState h = getState_impl h (config h) (state h)"

definition getType :: "NetworkHandler \<Rightarrow> NetworkType outcome" where
  "getType h = getType_impl h (config h) (state h)"

definition isEnabled :: "NetworkHandler \<Rightarrow> bool outcome" where
  "isEnabled h = isEnabled_impl h (config h) (state h)"

definition connect :: "NetworkHandler \<Rightarrow> bool outcome \<times> NetworkHandler" where
  "connect h = (case connect_impl h (state h) of (out, s) \<Rightarrow> (out, h\<lparr>state := s\<rparr>))"

definition disconnect :: "NetworkHandler \<Rightarrow> unit outcome \<times> NetworkHandler" where
  "disconnect h = (case disconnect_impl h (state h) of (out, s) \<Rightarrow> (out, h\<lparr>state := s\<rparr>))"

definition route_handler :: "NetworkHandler \<Rightarrow> string \<Rightarrow> string outcome \<times> NetworkHandler" where
  "route_handler h address =
     (case route_impl h (state h) address of (out, s) \<Rightarrow> (out, h\<lparr>state := s\<rparr>))"

subsection \<open>The handler classes of the source\<close>

text \<open>
  All six classes share \<^verbatim>\<open>connect\<close> (state to \<^verbatim>\<open>'connecting'\<close>, then to
  \<^verbatim>\<open>'connected'\<close>, return \<^verbatim>\<open>true\<close>) and \<^verbatim>\<open>disconnect\<close> (state to
  \<^verbatim>\<open>'disconnected'\<close>); their \<^verbatim>\<open>route\<close> leaves the state alone; none overrides an
  accessor.
\<close>

definition simulated_connect :: "ConnectionState \<Rightarrow> bool outcome \<times> ConnectionState" where
  "simulated_connect s = (Returned True, Connected)"

definition simulated_disconnect :: "ConnectionState \<Rightarrow> unit outcome \<times> ConnectionState" where
  "simulated_disconnect s = (Returned (), Disconnected)"

definition prefix_route ::
  "string \<Rightarrow> ConnectionState \<Rightarrow> string \<Rightarrow> string outcome \<times> ConnectionState" where
  "prefix_route pre s address = (Returned (pre @ address), s)"

definition mk_handler ::
  "NetworkConfig \<Rightarrow> (ConnectionState \<Rightarrow> string \<Rightarrow> string outcome \<times> ConnectionState)
     \<Rightarrow> NetworkHandler" where
  "mk_handler c rt =
     \<lparr>config = c, state = Disconnected, getState_impl = base_getState,
      getType_impl = base_getType, isEnabled_impl = base_isEnabled,
      connect_impl = simulated_connect, disconnect_impl = simulated_disconnect,
      route_impl = rt\<rparr>"

definition ClearnetHandler :: "NetworkConfig_partial option \<Rightarrow> NetworkHandler" where
  "ClearnetHandler cfg =
     mk_handler
       (spread \<lparr>net_type = Clearnet, enabled = True, proxy = None, port = None,
                options = None\<rparr> cfg)
       (prefix_route [])"

definition TorHandler :: "NetworkConfig_partial option \<Rightarrow> NetworkHandler" where
  "TorHandler cfg =
     (let c = spread \<lparr>net_type = Tor, enabled = True,
                      proxy = Some ''socks5://127.0.0.1:9050'', port = None,
                      options = None\<rparr> cfg;
          socksProxy = (case proxy c of None \<Rightarrow> ''socks5://127.0.0.1:9050'' | Some x \<Rightarrow> x)
      in mk_handler c (prefix_route (socksProxy @ ''/'')))"

definition I2PHandler :: "NetworkConfig_partial option \<Rightarrow> NetworkHandler" where
  "I2PHandler cfg =
     (let c = spread \<lparr>net_type = I2P, enabled = True,
                      proxy = Some ''http://127.0.0.1:4444'', port = None,
                      options = None\<rparr> cfg;
          i2pProxy = (case proxy c of None \<Rightarrow> ''http://127.0.0.1:4444'' | Some x \<Rightarrow> x)
      in mk_handler c (prefix_route (i2pProxy @ ''/'')))"

definition GNUnetHandler :: "NetworkConfig_partial option \<Rightarrow> NetworkHandler" where
  "GNUnetHandler cfg =
     mk_handler
       (spread \<lparr>net_type = GNUnet, enabled = True, proxy = None, port = None,
                options = None\<rparr> cfg)
       (prefix_route ''gnunet://'')"

definition DVPNHandler :: "NetworkConfig_partial option \<Rightarrow> NetworkHandler" where
  "DVPNHandler cfg =
     (let endpoint =
            (case cfg of
               None \<Rightarrow> ''dvpn://node''
             | Some c \<Rightarrow>
                 (case p_options c of
                    None \<Rightarrow> ''dvpn://node''
                  | Some os \<Rightarrow>
                      (case map_of os ''endpoint'' of
                         None \<Rightarrow> ''dvpn://node''
                       | Some e \<Rightarrow> e)))
      in mk_handler
           (spread \<lparr>net_type = DVPN, enabled = True, proxy = None, port = None,
                    options = None\<rparr> cfg)
           (prefix_route (endpoint @ ''/'')))"

text \<open>\<^verbatim>\<open>CustomNetworkHandler\<close>: its argument also carries the optional \<^verbatim>\<open>routePrefix\<close>.\<close>

definition CustomNetworkHandler ::
  "NetworkConfig_partial \<Rightarrow> string option \<Rightarrow> NetworkHandler" where
  "CustomNetworkHandler cfg routePrefix =
     mk_handler
       (spread \<lparr>net_type = Custom, enabled = True, proxy = None, port = None,
                options = None\<rparr> (Some cfg))
       (prefix_route (case routePrefix of None \<Rightarrow> ''custom://'' | Some x \<Rightarrow> x))"

subsection \<open>UnifiedRouter\<close>

text \<open>
  \<^verbatim>\<open>handlers: Map<NetworkType, NetworkHandler>\<close> is iterated by \<^verbatim>\<open>connectAll\<close> and
  \<^verbatim>\<open>disconnectAll\<close>, in insertion order: an association list. \<^verbatim>\<open>Map.set\<close> replaces
  the value of a key in place and puts a new key last, which is \<open>AList.update\<close>;
  \<^verbatim>\<open>Map.delete\<close> is \<open>AList.delete\<close>; \<^verbatim>\<open>Map.get\<close> is \<open>map_of\<close>. The keys of a
  \<^verbatim>\<open>Map\<close> are distinct (\<open>router_ok\<close>).
\<close>

record UnifiedRouter =
  handlers :: "(NetworkType \<times> NetworkHandler) list"
  defaultNetwork :: NetworkType

definition router_ok :: "UnifiedRouter \<Rightarrow> bool" where
  "router_ok r = distinct (map fst (handlers r))"

text \<open>
  \<^verbatim>\<open>registerHandler\<close>: \<^verbatim>\<open>this.handlers.set(handler.getType(), handler)\<close>; if
  \<^verbatim>\<open>getType\<close> throws, so does the call, and the map is as before.
\<close>

definition registerHandler :: "NetworkHandler \<Rightarrow> UnifiedRouter \<Rightarrow> unit outcome \<times> UnifiedRouter" where
  "registerHandler h r =
     (case getType h of
        Thrown e \<Rightarrow> (Thrown e, r)
      | Returned t \<Rightarrow> (Returned (), r\<lparr>handlers := AList.update t h (handlers r)\<rparr>))"

text \<open>The constructor registers a default \<^verbatim>\<open>ClearnetHandler\<close>.\<close>

definition new_UnifiedRouter :: UnifiedRouter where
  "new_UnifiedRouter =
     snd (registerHandler (ClearnetHandler None) \<lparr>handlers = [], defaultNetwork = Clearnet\<rparr>)"

definition unregisterHandler :: "NetworkType \<Rightarrow> UnifiedRouter \<Rightarrow> bool \<times> UnifiedRouter" where
  "unregisterHandler t r =
     (map_of (handlers r) t \<noteq> None, r\<lparr>handlers := AList.delete t (handlers r)\<rparr>)"


definition getRegisteredNetworks :: "UnifiedRouter \<Rightarrow> NetworkType list" where
  "getRegisteredNetworks r = map fst (handlers r)"

definition has_handler :: "UnifiedRouter \<Rightarrow> NetworkType \<Rightarrow> bool" where
  "has_handler r t = (map_of (handlers r) t \<noteq> None)"

definition setDefaultNetwork :: "NetworkType \<Rightarrow> UnifiedRouter \<Rightarrow> unit outcome \<times> UnifiedRouter" where
  "setDefaultNetwork t r =
     (if \<not> has_handler r t
      then (Thrown (ErrorObject (''Network handler for '' @ network_name t @ '' is not registered'')), r)
      else (Returned (), r\<lparr>defaultNetwork := t\<rparr>))"







text \<open>
  \<^verbatim>\<open>connectAll\<close>: the loop over the entries of the map, with the results so far. The
  body is not inside a \<^verbatim>\<open>try\<close>: a throw of \<^verbatim>\<open>isEnabled\<close> or of \<^verbatim>\<open>connect\<close> ends
  the loop and the call, the entries after it untouched.
\<close>

fun connectAll_loop ::
  "(NetworkType \<times> NetworkHandler) list \<Rightarrow> (NetworkType \<times> bool) list
     \<Rightarrow> (NetworkType \<times> bool) list outcome \<times> (NetworkType \<times> NetworkHandler) list" where
  "connectAll_loop [] results = (Returned results, [])"
| "connectAll_loop ((t, h) # rest) results =
     (case isEnabled h of
        Thrown e \<Rightarrow> (Thrown e, (t, h) # rest)
      | Returned en \<Rightarrow>
          if en then
            (case connect h of
               (Returned b, h') \<Rightarrow>
                 (case connectAll_loop rest (AList.update t b results) of
                    (out, rest') \<Rightarrow> (out, (t, h') # rest'))
             | (Thrown e, h') \<Rightarrow> (Thrown e, (t, h') # rest))
          else
            (case connectAll_loop rest (AList.update t False results) of
               (out, rest') \<Rightarrow> (out, (t, h) # rest')))"

definition connectAll ::
  "UnifiedRouter \<Rightarrow> (NetworkType \<times> bool) list outcome \<times> UnifiedRouter" where
  "connectAll r =
     (case connectAll_loop (handlers r) [] of (out, hs) \<Rightarrow> (out, r\<lparr>handlers := hs\<rparr>))"

text \<open>\<^verbatim>\<open>disconnectAll\<close>: the loop over the values of the map.\<close>

fun disconnectAll_loop ::
  "(NetworkType \<times> NetworkHandler) list
     \<Rightarrow> unit outcome \<times> (NetworkType \<times> NetworkHandler) list" where
  "disconnectAll_loop [] = (Returned (), [])"
| "disconnectAll_loop ((t, h) # rest) =
     (case disconnect h of
        (Returned _, h') \<Rightarrow>
          (case disconnectAll_loop rest of (out, rest') \<Rightarrow> (out, (t, h') # rest'))
      | (Thrown e, h') \<Rightarrow> (Thrown e, (t, h') # rest))"

definition disconnectAll :: "UnifiedRouter \<Rightarrow> unit outcome \<times> UnifiedRouter" where
  "disconnectAll r =
     (case disconnectAll_loop (handlers r) of (out, hs) \<Rightarrow> (out, r\<lparr>handlers := hs\<rparr>))"

definition selectNetworkForSecurity :: "SecurityLevel \<Rightarrow> UnifiedRouter \<Rightarrow> NetworkType" where
  "selectNetworkForSecurity level r =
     (case level of
        Maximum \<Rightarrow>
          if has_handler r Tor then Tor
          else if has_handler r I2P then I2P
          else defaultNetwork r
      | Elevated \<Rightarrow>
          if has_handler r DVPN then DVPN
          else if has_handler r GNUnet then GNUnet
          else if has_handler r Tor then Tor
          else defaultNetwork r
      | Standard \<Rightarrow> defaultNetwork r)"


text \<open>A call returned (rather than threw).\<close>

fun returns :: "'a outcome \<Rightarrow> bool" where
  "returns (Returned _) = True"
| "returns (Thrown _) = False"

text \<open>
  What \<^verbatim>\<open>connectAll\<close> does to one entry of the map and what it reports for it, and
  what \<^verbatim>\<open>disconnectAll\<close> does to one entry, when the handler's methods return.
\<close>

definition connect_entry :: "NetworkType \<times> NetworkHandler \<Rightarrow> NetworkType \<times> NetworkHandler" where
  "connect_entry e =
     (fst e, if isEnabled (snd e) = Returned True then snd (connect (snd e)) else snd e)"

definition connect_report :: "NetworkType \<times> NetworkHandler \<Rightarrow> NetworkType \<times> bool" where
  "connect_report e =
     (fst e, isEnabled (snd e) = Returned True \<and> fst (connect (snd e)) = Returned True)"

definition disconnect_entry :: "NetworkType \<times> NetworkHandler \<Rightarrow> NetworkType \<times> NetworkHandler" where
  "disconnect_entry e = (fst e, snd (disconnect (snd e)))"

subsection \<open>Concrete inputs\<close>

text \<open>A connection that negotiated TLS 1.0 and reports nothing else.\<close>

definition tls10_context :: ConnectionContext where
  "tls10_context =
     \<lparr>url = ''https://example.org/'', tlsVersion = Some ''1.0'', cipherSuite = None,
      certificate = None, certificateExpired = None\<rparr>"

text \<open>A connection that reports TLS "1.10", one at TLS 1.2, and one with no TLS version.\<close>

definition tls110_context :: ConnectionContext where
  "tls110_context =
     \<lparr>url = ''https://example.org/'', tlsVersion = Some ''1.10'', cipherSuite = None,
      certificate = None, certificateExpired = None\<rparr>"

definition tls12_context :: ConnectionContext where
  "tls12_context =
     \<lparr>url = ''https://example.org/'', tlsVersion = Some ''1.2'', cipherSuite = None,
      certificate = None, certificateExpired = None\<rparr>"

definition no_tls_context :: ConnectionContext where
  "no_tls_context =
     \<lparr>url = ''http://example.org/'', tlsVersion = None,
      cipherSuite = Some ''TLS_AES_256_GCM_SHA384'', certificate = None,
      certificateExpired = None\<rparr>"

text \<open>
  A manager with two policies more, each created and activated through the interface:
  one at level block whose rule has action prompt, one at the default level warn whose
  rule has action deny. Both rules ask for TLS 1.3.
\<close>

definition prompt_rule :: SecurityRule where
  "prompt_rule =
     \<lparr>rule_type = AntiDowngrade, condition = ''tls_version < 1.2'', action = Prompt,
      metadata = Some \<lparr>minVersion = Some ''1.3'', weakCiphers = None\<rparr>\<rparr>"

definition deny_rule :: SecurityRule where
  "deny_rule =
     \<lparr>rule_type = AntiDowngrade, condition = ''tls_version < 1.2'', action = Deny,
      metadata = Some \<lparr>minVersion = Some ''1.3'', weakCiphers = None\<rparr>\<rparr>"

definition custom_manager :: PolicyManager where
  "custom_manager =
     (let pm1 = snd (createPolicy ''policy_1'' ''Ask below 1.3'' [prompt_rule] (Some Block)
                       new_PolicyManager);
          pm2 = snd (activatePolicy ''policy_1'' pm1);
          pm3 = snd (createPolicy ''policy_2'' ''Report below 1.3'' [deny_rule] None pm2)
      in snd (activatePolicy ''policy_2'' pm3))"

definition block_policy :: SecurityPolicy where
  "block_policy = \<lparr>policy_id = ''policy_1'', policy_name = ''Ask below 1.3'',
                    rules = [prompt_rule], enforcementLevel = Block\<rparr>"

definition warn_policy :: SecurityPolicy where
  "warn_policy = \<lparr>policy_id = ''policy_2'', policy_name = ''Report below 1.3'',
                   rules = [deny_rule], enforcementLevel = Warn\<rparr>"

text \<open>
  The cipher suite of a context, if it has one, contains none of the default policy's
  weak ciphers.
\<close>

definition no_weak_cipher :: "ConnectionContext \<Rightarrow> bool" where
  "no_weak_cipher ctx =
     (case cipherSuite ctx of
        None \<Rightarrow> True
      | Some cs \<Rightarrow> \<not> list_ex (\<lambda>w. includes_str cs w) [''RC4'', ''DES'', ''3DES'', ''MD5''])"

text \<open>
  A certificate of an issuer nobody trusts, not private, valid from \<open>f\<close> to \<open>t\<close>.
\<close>

definition site_cert :: "js_date \<Rightarrow> js_date \<Rightarrow> Certificate" where
  "site_cert f t =
     \<lparr>cert_id = ''1'', subject = ''CN=example.org'', issuer = ''CN=Unknown CA'',
      publicKey = ''key'', serialNumber = ''1'', validFrom = f, validTo = t,
      isPrivate = False, trusted = False\<rparr>"

text \<open>The router after \<^verbatim>\<open>router.registerHandler(h)\<close>.\<close>

definition with_handler :: "NetworkHandler \<Rightarrow> UnifiedRouter \<Rightarrow> UnifiedRouter" where
  "with_handler h r = snd (registerHandler h r)"

text \<open>
  Routers: the one of the test suite, with the five networks registered; one with a
  disabled Tor handler; one with a handler of a custom class whose \<^verbatim>\<open>connect\<close>
  throws; one with a handler of a custom class that overrides \<^verbatim>\<open>isEnabled\<close> with a
  method that throws; one with a disabled Tor handler that was connected before it was
  registered; one with an enabled, a disabled and another enabled handler.
\<close>

definition full_router :: UnifiedRouter where
  "full_router =
     with_handler (GNUnetHandler None)
       (with_handler (DVPNHandler None)
          (with_handler (I2PHandler None)
             (with_handler (TorHandler None) new_UnifiedRouter)))"

definition disabled_config :: NetworkConfig_partial where
  "disabled_config =
     \<lparr>p_type = None, p_enabled = Some False, p_proxy = None, p_port = None, p_options = None\<rparr>"

definition tor_off_router :: UnifiedRouter where
  "tor_off_router = with_handler (TorHandler (Some disabled_config)) new_UnifiedRouter"





definition connected_tor_off :: NetworkHandler where
  "connected_tor_off = snd (connect (TorHandler (Some disabled_config)))"

definition stale_router :: UnifiedRouter where
  "stale_router = with_handler connected_tor_off new_UnifiedRouter"

definition mixed_router :: UnifiedRouter where
  "mixed_router = with_handler (I2PHandler None) tor_off_router"


definition handler_summary ::
  "UnifiedRouter \<Rightarrow> (NetworkType \<times> bool outcome \<times> ConnectionState outcome) list" where
  "handler_summary r = map (\<lambda>(t, h). (t, isEnabled h, getState h)) (handlers r)"

section \<open>Properties\<close>

subsection \<open>The rounding model\<close>

text \<open>
  Two checks of the number model: \<open>round_half_even\<close> moves a value by at most a half, and
  \<open>floor_log2\<close> is the binary exponent of a positive value.
\<close>

lemma round_half_even_near: "\<bar>of_int (round_half_even x) - x\<bar> \<le> 1 / 2"
proof -
  have "of_int \<lfloor>x\<rfloor> \<le> x" and "x < of_int \<lfloor>x\<rfloor> + 1"
    by linarith+
  then show ?thesis
    unfolding round_half_even_def Let_def by (auto simp: abs_le_iff)
qed

lemma bitlen_power_bounds:
  assumes "0 < p"
  shows "(2::rat) powi (bitlen p - 1) \<le> of_int p" "of_int p < (2::rat) powi (bitlen p)"
proof -
  from bitlen_bounds [OF assms]
  have a: "2 ^ nat (bitlen p - 1) \<le> p" and b: "p < 2 ^ nat (bitlen p)" by auto
  have pos: "1 \<le> bitlen p" using assms by (simp add: bitlen_alt_def)
  from a have "(of_int (2 ^ nat (bitlen p - 1)) :: rat) \<le> of_int p" by (simp only: of_int_le_iff)
  then show "(2::rat) powi (bitlen p - 1) \<le> of_int p"
    using pos by (simp add: power_int_def)
  from b have "(of_int p :: rat) < of_int (2 ^ nat (bitlen p))" by (simp only: of_int_less_iff)
  then show "of_int p < (2::rat) powi (bitlen p)"
    using pos by (simp add: power_int_def)
qed

lemma floor_log2_bounds:
  assumes "0 < x"
  shows "2 powi (floor_log2 x) \<le> x \<and> x < 2 powi (floor_log2 x + 1)"
proof -
  obtain p q where pq: "quotient_of x = (p, q)" by (cases "quotient_of x")
  then have q: "0 < q" and x: "x = of_int p / of_int q"
    by (simp_all add: quotient_of_denom_pos quotient_of_div)
  with assms have p: "0 < p" by (simp add: zero_less_divide_iff)
  define d where "d = bitlen p - bitlen q"
  note P = bitlen_power_bounds [OF p] and Q = bitlen_power_bounds [OF q]
  have qpos: "(0::rat) < of_int q" using q by simp
  have up: "x < 2 powi (d + 1)"
  proof -
    have "of_int p < (2::rat) powi (bitlen p)" by (rule P)
    also have "\<dots> = 2 powi (d + 1) * 2 powi (bitlen q - 1)"
      by (simp add: d_def power_int_add [symmetric])
    also have "\<dots> \<le> 2 powi (d + 1) * of_int q"
      using Q(1) by (intro mult_left_mono) simp_all
    finally show ?thesis using qpos by (simp add: x pos_divide_less_eq)
  qed
  have low: "2 powi (d - 1) < x"
  proof -
    have "(2::rat) powi (d - 1) * of_int q < 2 powi (d - 1) * 2 powi (bitlen q)"
      using Q(2) by (intro mult_strict_left_mono) simp_all
    also have "\<dots> = 2 powi (bitlen p - 1)"
      by (simp add: d_def power_int_add [symmetric])
    also have "\<dots> \<le> of_int p" by (rule P)
    finally show ?thesis using qpos by (simp add: x pos_less_divide_eq)
  qed
  show ?thesis
    using up low pq by (auto simp: floor_log2_def Let_def d_def)
qed

subsection \<open>What the loops of evaluateConnection compute\<close>

lemma evaluate_one_violations:
  "violations (evaluate_one p ctx res r) = violations res @ rule_violations p ctx r"
  by (simp add: evaluate_one_def rule_violations_def split: option.splits)


lemma evaluate_one_allowed:
  "allowed (evaluate_one p ctx res r) = (allowed res \<and> rule_violations p ctx r = [])"
  by (simp add: evaluate_one_def rule_violations_def split: option.splits)

lemma evaluate_rules_violations:
  "violations (evaluate_rules p ctx rs res) =
     violations res @ concat (map (rule_violations p ctx) rs)"
  by (induction rs arbitrary: res) (simp_all add: evaluate_one_violations)


lemma evaluate_rules_allowed:
  "allowed (evaluate_rules p ctx rs res) =
     (allowed res \<and> concat (map (rule_violations p ctx) rs) = [])"
  by (induction rs arbitrary: res) (auto simp: evaluate_one_allowed)

lemma evaluate_policies_violations:
  "violations (evaluate_policies ctx ps res) =
     violations res @ concat (map (policy_violations ctx) ps)"
  by (induction ps arbitrary: res) (simp_all add: evaluate_rules_violations policy_violations_def)


lemma evaluate_policies_allowed:
  "allowed (evaluate_policies ctx ps res) =
     (allowed res \<and> concat (map (policy_violations ctx) ps) = [])"
  by (induction ps arbitrary: res) (auto simp: evaluate_rules_allowed policy_violations_def)

lemma evaluateConnection_violations:
  "violations (evaluateConnection pm ctx) =
     concat (map (policy_violations ctx) (getActivePolicies pm))"
  by (simp add: evaluateConnection_def evaluate_policies_violations)


lemma evaluateConnection_allowed:
  "allowed (evaluateConnection pm ctx) =
     (concat (map (policy_violations ctx) (getActivePolicies pm)) = [])"
  by (simp add: evaluateConnection_def evaluate_policies_allowed)

lemma allowed_iff_no_violation:
  "allowed (evaluateConnection pm ctx) = (violations (evaluateConnection pm ctx) = [])"
  by (simp add: evaluateConnection_allowed evaluateConnection_violations)




text \<open>The active policies are the policies stored under the active identifiers.\<close>

lemma getActivePolicies_iff:
  "p \<in> set (getActivePolicies pm) \<longleftrightarrow> (\<exists>i \<in> set (activePolicies pm). policies pm i = Some p)"
  by (force simp: getActivePolicies_def List.map_filter_def image_iff)

subsection \<open>The fresh PolicyManager\<close>

lemma getActivePolicies_new: "getActivePolicies new_PolicyManager = [antiDowngradePolicy]"
  by (simp add: getActivePolicies_def new_PolicyManager_def initializeDefaultPolicies_def
      set_add_def List.map_filter_simps)

lemma compare_1_0_below_1_2: "js_lt_zero (compareTlsVersions ''1.0'' ''1.2'')"
  by code_simp

lemma tlsFloorRule_on_1_0:
  assumes "tlsVersion ctx = Some ''1.0''"
  shows "evaluateRule tlsFloorRule ctx = Some ''TLS version 1.0 is below minimum 1.2''"
  using assms compare_1_0_below_1_2
  by (simp add: evaluateRule_def evaluateAntiDowngrade_def tls_floor_check_def tlsFloorRule_def)

text \<open>
  C1. A fresh PolicyManager holds the policy "Anti-Downgrade Protection", active and at
  level strict, and rejects every connection context whose tlsVersion is "1.0": allowed
  is false and the violations are not empty; the first of them is the TLS-floor rule's.
\<close>

theorem fail_closed_default:
  assumes "tlsVersion ctx = Some ''1.0''"
  shows "isPolicyActive ''default-anti-downgrade'' new_PolicyManager
       \<and> getPolicy ''default-anti-downgrade'' new_PolicyManager = Some antiDowngradePolicy
       \<and> policy_name antiDowngradePolicy = ''Anti-Downgrade Protection''
       \<and> enforcementLevel antiDowngradePolicy = Strict
       \<and> \<not> allowed (evaluateConnection new_PolicyManager ctx)
       \<and> violations (evaluateConnection new_PolicyManager ctx) \<noteq> []
       \<and> hd (violations (evaluateConnection new_PolicyManager ctx)) =
           \<lparr>policyId = ''default-anti-downgrade'', policyName = ''Anti-Downgrade Protection'',
            rule = tlsFloorRule, message = ''TLS version 1.0 is below minimum 1.2''\<rparr>"
proof -
  have rv: "rule_violations antiDowngradePolicy ctx tlsFloorRule =
      [mk_violation antiDowngradePolicy tlsFloorRule ''TLS version 1.0 is below minimum 1.2'']"
    using tlsFloorRule_on_1_0 [OF assms]
    by (simp add: rule_violations_def antiDowngradePolicy_def tlsFloorRule_def)
  have vs: "violations (evaluateConnection new_PolicyManager ctx) =
      mk_violation antiDowngradePolicy tlsFloorRule ''TLS version 1.0 is below minimum 1.2''
        # rule_violations antiDowngradePolicy ctx weakCipherRule
        @ rule_violations antiDowngradePolicy ctx certificateExpiredRule"
    using rv
    by (simp add: evaluateConnection_violations getActivePolicies_new policy_violations_def
        antiDowngradePolicy_def)
  have al: "\<not> allowed (evaluateConnection new_PolicyManager ctx)"
    using vs by (simp add: evaluateConnection_allowed evaluateConnection_violations)
  have act: "isPolicyActive ''default-anti-downgrade'' new_PolicyManager"
    by (simp add: isPolicyActive_def new_PolicyManager_def initializeDefaultPolicies_def
        set_add_def antiDowngradePolicy_def)
  have get: "getPolicy ''default-anti-downgrade'' new_PolicyManager = Some antiDowngradePolicy"
    by (simp add: getPolicy_def new_PolicyManager_def initializeDefaultPolicies_def
        antiDowngradePolicy_def)
  show ?thesis
    using vs al act get by (simp add: mk_violation_def antiDowngradePolicy_def)
qed

theorem fail_closed_default_witness:
  "tlsVersion tls10_context = Some ''1.0''
   \<and> \<not> allowed (evaluateConnection new_PolicyManager tls10_context)
   \<and> violations (evaluateConnection new_PolicyManager tls10_context) \<noteq> []"
  using fail_closed_default [of tls10_context] by (simp add: tls10_context_def)

lemma evaluateConnection_tls10:
  "evaluateConnection new_PolicyManager tls10_context =
     \<lparr>allowed = False,
      violations = [\<lparr>policyId = ''default-anti-downgrade'',
                     policyName = ''Anti-Downgrade Protection'',
                     rule = tlsFloorRule,
                     message = ''TLS version 1.0 is below minimum 1.2''\<rparr>],
      warnings = []\<rparr>"
proof -
  have r1: "evaluateRule tlsFloorRule tls10_context = Some ''TLS version 1.0 is below minimum 1.2''"
    by (rule tlsFloorRule_on_1_0) (simp add: tls10_context_def)
  have r2: "evaluateRule weakCipherRule tls10_context = None"
    by (simp add: evaluateRule_def evaluateAntiDowngrade_def tls_floor_check_def
        weak_cipher_check_def weakCipherRule_def tls10_context_def)
  have r3: "evaluateRule certificateExpiredRule tls10_context = None"
    by (simp add: evaluateRule_def evaluateAntiDowngrade_def tls_floor_check_def
        weak_cipher_check_def certificateExpiredRule_def tls10_context_def)
  show ?thesis
    using r1 r2 r3
    by (simp add: evaluateConnection_def getActivePolicies_new antiDowngradePolicy_def
        evaluate_one_def mk_violation_def tlsFloorRule_def weakCipherRule_def
        certificateExpiredRule_def)
qed

subsection \<open>Version comparison\<close>

lemma parseVersion_1_10: "parseVersion ''1.10'' = parseVersion ''1.1''"
  by code_simp

lemma compare_1_10_below_1_2: "js_lt_zero (compareTlsVersions ''1.10'' ''1.2'')"
  by code_simp

lemma compare_1_2_with_1_2: "\<not> js_lt_zero (compareTlsVersions ''1.2'' ''1.2'')"
  by code_simp

lemma compare_1_2_below_1_3: "js_lt_zero (compareTlsVersions ''1.2'' ''1.3'')"
  by code_simp

text \<open>
  C2. The claim asks that "1.10" compare at or above the minimum "1.2" and pass the
  TLS-floor rule. In the code \<^verbatim>\<open>parseVersion\<close> joins the two groups of digits into one
  decimal fraction, so "1.10" is the number 1.1, the difference to 1.2 is negative, and a
  fresh PolicyManager rejects the connection with the TLS-floor rule's violation.
\<close>

theorem tls_1_10_flagged:
  "parseVersion ''1.10'' = parseVersion ''1.1''
   \<and> js_lt_zero (compareTlsVersions ''1.10'' ''1.2'')
   \<and> evaluateRule tlsFloorRule tls110_context = Some ''TLS version 1.10 is below minimum 1.2''
   \<and> evaluateConnection new_PolicyManager tls110_context =
       \<lparr>allowed = False,
        violations = [\<lparr>policyId = ''default-anti-downgrade'',
                       policyName = ''Anti-Downgrade Protection'',
                       rule = tlsFloorRule,
                       message = ''TLS version 1.10 is below minimum 1.2''\<rparr>],
        warnings = []\<rparr>"
proof -
  have r1: "evaluateRule tlsFloorRule tls110_context = Some ''TLS version 1.10 is below minimum 1.2''"
    using compare_1_10_below_1_2
    by (simp add: evaluateRule_def evaluateAntiDowngrade_def tls_floor_check_def tlsFloorRule_def
        tls110_context_def)
  have r2: "evaluateRule weakCipherRule tls110_context = None"
    by (simp add: evaluateRule_def evaluateAntiDowngrade_def tls_floor_check_def
        weak_cipher_check_def weakCipherRule_def tls110_context_def)
  have r3: "evaluateRule certificateExpiredRule tls110_context = None"
    by (simp add: evaluateRule_def evaluateAntiDowngrade_def tls_floor_check_def
        weak_cipher_check_def certificateExpiredRule_def tls110_context_def)
  have "evaluateConnection new_PolicyManager tls110_context =
       \<lparr>allowed = False,
        violations = [\<lparr>policyId = ''default-anti-downgrade'',
                       policyName = ''Anti-Downgrade Protection'',
                       rule = tlsFloorRule,
                       message = ''TLS version 1.10 is below minimum 1.2''\<rparr>],
        warnings = []\<rparr>"
    using r1 r2 r3
    by (simp add: evaluateConnection_def getActivePolicies_new antiDowngradePolicy_def
        evaluate_one_def mk_violation_def tlsFloorRule_def weakCipherRule_def
        certificateExpiredRule_def)
  with r1 parseVersion_1_10 compare_1_10_below_1_2 show ?thesis by simp
qed

subsection \<open>A manager with policies of its own\<close>

lemma getActivePolicies_custom:
  "getActivePolicies custom_manager = [antiDowngradePolicy, block_policy, warn_policy]"
  by (simp add: custom_manager_def createPolicy_def activatePolicy_def getActivePolicies_def
      new_PolicyManager_def initializeDefaultPolicies_def set_add_def List.map_filter_simps
      antiDowngradePolicy_def block_policy_def warn_policy_def Let_def)

lemma default_rules_on_tls12:
  "evaluateRule tlsFloorRule tls12_context = None"
  "evaluateRule weakCipherRule tls12_context = None"
  "evaluateRule certificateExpiredRule tls12_context = None"
  using compare_1_2_with_1_2
  by (simp_all add: evaluateRule_def evaluateAntiDowngrade_def tls_floor_check_def
      weak_cipher_check_def tlsFloorRule_def weakCipherRule_def certificateExpiredRule_def
      tls12_context_def)

lemma custom_rules_on_tls12:
  "evaluateRule prompt_rule tls12_context = Some ''TLS version 1.2 is below minimum 1.3''"
  "evaluateRule deny_rule tls12_context = Some ''TLS version 1.2 is below minimum 1.3''"
  using compare_1_2_below_1_3
  by (simp_all add: evaluateRule_def evaluateAntiDowngrade_def tls_floor_check_def
      prompt_rule_def deny_rule_def tls12_context_def)

lemma evaluateConnection_custom:
  "evaluateConnection custom_manager tls12_context =
     \<lparr>allowed = True, violations = [],
      warnings = [\<lparr>policyId = ''policy_1'', policyName = ''Ask below 1.3'', rule = prompt_rule,
                    message = ''TLS version 1.2 is below minimum 1.3''\<rparr>,
                  \<lparr>policyId = ''policy_2'', policyName = ''Report below 1.3'', rule = deny_rule,
                    message = ''TLS version 1.2 is below minimum 1.3''\<rparr>]\<rparr>"
  using default_rules_on_tls12 custom_rules_on_tls12
  by (simp add: evaluateConnection_def getActivePolicies_custom antiDowngradePolicy_def
      block_policy_def warn_policy_def evaluate_one_def mk_violation_def Let_def
      prompt_rule_def deny_rule_def)

subsection \<open>Aggregation of triggered rules\<close>




text \<open>
  C6. Whatever the manager holds and whatever the context: allowed is false exactly when
  the violations are not empty, and every violation names an active policy whose level
  is not warn, together with a rule of that policy whose action is deny and which
  returned the violation's message.
\<close>

theorem result_invariant:
  "(\<not> allowed (evaluateConnection pm ctx)) = (violations (evaluateConnection pm ctx) \<noteq> [])
   \<and> (\<forall>v \<in> set (violations (evaluateConnection pm ctx)).
        \<exists>p \<in> set (getActivePolicies pm).
          policyId v = policy_id p \<and> policyName v = policy_name p
          \<and> rule v \<in> set (rules p) \<and> enforcementLevel p \<noteq> Warn
          \<and> action (rule v) = Deny \<and> evaluateRule (rule v) ctx = Some (message v))"
proof -
  have "\<exists>p \<in> set (getActivePolicies pm).
          policyId v = policy_id p \<and> policyName v = policy_name p
          \<and> rule v \<in> set (rules p) \<and> enforcementLevel p \<noteq> Warn
          \<and> action (rule v) = Deny \<and> evaluateRule (rule v) ctx = Some (message v)"
    if "v \<in> set (violations (evaluateConnection pm ctx))" for v
  proof -
    from that obtain p r where p: "p \<in> set (getActivePolicies pm)" and r: "r \<in> set (rules p)"
      and v: "v \<in> set (rule_violations p ctx r)"
      by (auto simp: evaluateConnection_violations policy_violations_def)
    from v have "policyId v = policy_id p \<and> policyName v = policy_name p \<and> rule v = r
        \<and> enforcementLevel p \<noteq> Warn \<and> action r = Deny \<and> evaluateRule r ctx = Some (message v)"
      by (auto simp: rule_violations_def mk_violation_def split: option.splits if_splits)
    with p r show ?thesis by blast
  qed
  then show ?thesis by (simp add: allowed_iff_no_violation)
qed

theorem result_invariant_witness:
  "\<not> allowed (evaluateConnection new_PolicyManager tls10_context)
   \<and> violations (evaluateConnection new_PolicyManager tls10_context) =
       [\<lparr>policyId = ''default-anti-downgrade'', policyName = ''Anti-Downgrade Protection'',
         rule = tlsFloorRule, message = ''TLS version 1.0 is below minimum 1.2''\<rparr>]
   \<and> (\<exists>p \<in> set (getActivePolicies new_PolicyManager).
        policy_id p = ''default-anti-downgrade'' \<and> tlsFloorRule \<in> set (rules p)
        \<and> enforcementLevel p \<noteq> Warn)
   \<and> allowed (evaluateConnection custom_manager tls12_context)
   \<and> violations (evaluateConnection custom_manager tls12_context) = []"
proof -
  let ?v = "\<lparr>policyId = ''default-anti-downgrade'', policyName = ''Anti-Downgrade Protection'',
         rule = tlsFloorRule, message = ''TLS version 1.0 is below minimum 1.2''\<rparr>"
  have vs: "violations (evaluateConnection new_PolicyManager tls10_context) = [?v]"
    by (simp add: evaluateConnection_tls10)
  note I = result_invariant [of new_PolicyManager tls10_context]
  from I have a: "\<not> allowed (evaluateConnection new_PolicyManager tls10_context)"
    using vs by simp
  from I vs have "\<exists>p \<in> set (getActivePolicies new_PolicyManager).
          policyId ?v = policy_id p \<and> policyName ?v = policy_name p
          \<and> rule ?v \<in> set (rules p) \<and> enforcementLevel p \<noteq> Warn
          \<and> action (rule ?v) = Deny
          \<and> evaluateRule (rule ?v) tls10_context = Some (message ?v)"
    by simp
  then have e: "\<exists>p \<in> set (getActivePolicies new_PolicyManager).
        policy_id p = ''default-anti-downgrade'' \<and> tlsFloorRule \<in> set (rules p)
        \<and> enforcementLevel p \<noteq> Warn"
    by auto
  note J = result_invariant [of custom_manager tls12_context]
  have vc: "violations (evaluateConnection custom_manager tls12_context) = []"
    by (simp add: evaluateConnection_custom)
  from J vc have c: "allowed (evaluateConnection custom_manager tls12_context)" by simp
  show ?thesis using a vs e c vc by simp
qed

subsection \<open>A context without a TLS version\<close>

lemma no_weak_cipher_no_tls: "no_weak_cipher no_tls_context"
  by (simp add: no_weak_cipher_def no_tls_context_def prefix_def)

text \<open>
  C10. When the context has no tlsVersion, or an empty one, the TLS-floor rule of the
  default policy returns nothing; if moreover the cipher suite contains no weak cipher
  and certificateExpired is not true, a fresh PolicyManager allows the connection, with
  no violation and no warning.
\<close>

theorem absent_tls_version_allowed:
  assumes tls: "tlsVersion ctx = None \<or> tlsVersion ctx = Some []"
  shows "evaluateRule tlsFloorRule ctx = None
       \<and> (no_weak_cipher ctx \<and> certificateExpired ctx \<noteq> Some True \<longrightarrow>
            evaluateConnection new_PolicyManager ctx =
              \<lparr>allowed = True, violations = [], warnings = []\<rparr>)"
proof -
  have r1: "evaluateRule tlsFloorRule ctx = None"
    using tls
    by (auto simp: evaluateRule_def evaluateAntiDowngrade_def tls_floor_check_def
        weak_cipher_check_def tlsFloorRule_def)
  have "evaluateConnection new_PolicyManager ctx =
           \<lparr>allowed = True, violations = [], warnings = []\<rparr>"
    if nw: "no_weak_cipher ctx" and ne: "certificateExpired ctx \<noteq> Some True"
  proof -
    have r2: "evaluateRule weakCipherRule ctx = None"
      using nw
      by (auto simp: evaluateRule_def evaluateAntiDowngrade_def tls_floor_check_def
          weak_cipher_check_def weakCipherRule_def no_weak_cipher_def split: option.splits)
    have r3: "evaluateRule certificateExpiredRule ctx = None"
      using ne
      by (simp add: evaluateRule_def evaluateAntiDowngrade_def tls_floor_check_def
          weak_cipher_check_def certificateExpiredRule_def)
    show ?thesis
      using r1 r2 r3
      by (simp add: evaluateConnection_def getActivePolicies_new antiDowngradePolicy_def
          evaluate_one_def)
  qed
  with r1 show ?thesis by simp
qed

theorem absent_tls_version_allowed_witness:
  "tlsVersion no_tls_context = None
   \<and> no_weak_cipher no_tls_context
   \<and> certificateExpired no_tls_context \<noteq> Some True
   \<and> evaluateRule tlsFloorRule no_tls_context = None
   \<and> evaluateConnection new_PolicyManager no_tls_context =
       \<lparr>allowed = True, violations = [], warnings = []\<rparr>
   \<and> evaluateConnection new_PolicyManager (no_tls_context\<lparr>tlsVersion := Some []\<rparr>) =
       \<lparr>allowed = True, violations = [], warnings = []\<rparr>"
proof -
  let ?e = "no_tls_context\<lparr>tlsVersion := Some []\<rparr>"
  have h: "tlsVersion no_tls_context = None \<or> tlsVersion no_tls_context = Some []"
    and t: "tlsVersion no_tls_context = None"
    and e: "certificateExpired no_tls_context \<noteq> Some True"
    by (simp_all add: no_tls_context_def)
  have h': "tlsVersion ?e = None \<or> tlsVersion ?e = Some []"
    and e': "certificateExpired ?e \<noteq> Some True"
    and w': "no_weak_cipher ?e"
    using no_weak_cipher_no_tls by (simp_all add: no_tls_context_def no_weak_cipher_def)
  from absent_tls_version_allowed [OF h'] e' w'
  have "evaluateConnection new_PolicyManager ?e =
       \<lparr>allowed = True, violations = [], warnings = []\<rparr>"
    by blast
  with absent_tls_version_allowed [OF h] no_weak_cipher_no_tls e t show ?thesis by simp
qed

subsection \<open>verifyCertificate\<close>

lemma verifyCertificate_errors:
  "errors (verifyCertificate pki now cert) =
     (if date_gt (validFrom cert) (DateTime now) then [''Certificate is not yet valid''] else [])
     @ (if date_lt (validTo cert) (DateTime now) then [''Certificate has expired''] else [])"
  by (simp add: verifyCertificate_def Let_def)

lemma verifyCertificate_valid:
  "valid (verifyCertificate pki now cert) =
     (\<not> date_gt (validFrom cert) (DateTime now) \<and> \<not> date_lt (validTo cert) (DateTime now))"
  by (simp add: verifyCertificate_def Let_def)

lemma verifyCertificate_trusted:
  "result_trusted (verifyCertificate pki now cert) =
     (issuer cert \<in> trustedIssuers pki \<or> isPrivate cert)"
  by (simp add: verifyCertificate_def Let_def)

lemma verifyCertificate_warnings:
  "result_warnings (verifyCertificate pki now cert) =
     (if issuer cert \<in> trustedIssuers pki \<or> isPrivate cert then []
      else [''Certificate issuer is not in trusted list''])"
  by (simp add: verifyCertificate_def Let_def)

text \<open>
  C3, as the claim states it, fails at the upper boundary: a certificate whose validTo is
  the current time, to the millisecond, is valid and carries no error (the test is
  \<^verbatim>\<open>cert.validTo < now\<close>).
\<close>

theorem validTo_now_not_expired:
  "validTo (site_cert (DateTime 0) (DateTime 1000)) = DateTime 1000
   \<and> valid (verifyCertificate new_PKIManager 1000 (site_cert (DateTime 0) (DateTime 1000)))
   \<and> errors (verifyCertificate new_PKIManager 1000 (site_cert (DateTime 0) (DateTime 1000))) = []"
  by (simp add: verifyCertificate_errors verifyCertificate_valid site_cert_def)

text \<open>
  C3, amended. For a certificate with valid dates \<open>f\<close> (validFrom) and \<open>t\<close> (validTo):
  if \<open>f\<close> is after the current time, by however little, the result is not valid and
  carries "Certificate is not yet valid", and only then; it carries "Certificate has
  expired" exactly when \<open>t\<close> is before the current time, so both ends of the window are
  inclusive; the two tests are independent, and both errors appear, in this order, when
  both hold.
\<close>

theorem certificate_temporal_validity:
  assumes "validFrom cert = DateTime f" and "validTo cert = DateTime t"
  shows "(now < f \<longrightarrow>
            \<not> valid (verifyCertificate pki now cert)
            \<and> ''Certificate is not yet valid'' \<in> set (errors (verifyCertificate pki now cert)))
       \<and> (''Certificate is not yet valid'' \<in> set (errors (verifyCertificate pki now cert)))
           = (now < f)
       \<and> (''Certificate has expired'' \<in> set (errors (verifyCertificate pki now cert)))
           = (t < now)
       \<and> valid (verifyCertificate pki now cert) = (f \<le> now \<and> now \<le> t)
       \<and> (now < f \<and> t < now \<longrightarrow>
            errors (verifyCertificate pki now cert) =
              [''Certificate is not yet valid'', ''Certificate has expired''])"
  using assms by (auto simp: verifyCertificate_errors verifyCertificate_valid)

theorem certificate_temporal_validity_witness:
  "\<not> valid (verifyCertificate new_PKIManager 1000 (site_cert (DateTime 1001) (DateTime 5000)))
   \<and> ''Certificate is not yet valid''
        \<in> set (errors (verifyCertificate new_PKIManager 1000
                         (site_cert (DateTime 1001) (DateTime 5000))))
   \<and> valid (verifyCertificate new_PKIManager 1000 (site_cert (DateTime 0) (DateTime 1000)))
   \<and> \<not> valid (verifyCertificate new_PKIManager 1000 (site_cert (DateTime 0) (DateTime 999)))
   \<and> errors (verifyCertificate new_PKIManager 1000 (site_cert (DateTime 2000) (DateTime 500)))
       = [''Certificate is not yet valid'', ''Certificate has expired'']"
proof -
  note T = certificate_temporal_validity [where now = 1000 and pki = new_PKIManager]
  have 1: "\<not> valid (verifyCertificate new_PKIManager 1000 (site_cert (DateTime 1001) (DateTime 5000)))
      \<and> ''Certificate is not yet valid''
        \<in> set (errors (verifyCertificate new_PKIManager 1000
                         (site_cert (DateTime 1001) (DateTime 5000))))"
    using T [of "site_cert (DateTime 1001) (DateTime 5000)" 1001 5000]
    by (simp add: site_cert_def)
  have 3: "valid (verifyCertificate new_PKIManager 1000 (site_cert (DateTime 0) (DateTime 1000)))"
    using T [of "site_cert (DateTime 0) (DateTime 1000)" 0 1000]
    by (simp add: site_cert_def)
  have 4: "\<not> valid (verifyCertificate new_PKIManager 1000 (site_cert (DateTime 0) (DateTime 999)))"
    using T [of "site_cert (DateTime 0) (DateTime 999)" 0 999]
    by (simp add: site_cert_def)
  have 5: "errors (verifyCertificate new_PKIManager 1000 (site_cert (DateTime 2000) (DateTime 500)))
       = [''Certificate is not yet valid'', ''Certificate has expired'']"
    using T [of "site_cert (DateTime 2000) (DateTime 500)" 2000 500]
    by (simp add: site_cert_def)
  show ?thesis using 1 3 4 5 by simp
qed

text \<open>
  C4. trusted is true exactly when the issuer is in the trusted-issuer set or the
  certificate is private. When it is false the warnings are the one about the untrusted
  issuer; that message is never among the errors, and neither the errors nor valid depend
  on the trusted issuers, the issuer or the private flag; so an untrusted certificate
  inside its validity window is valid, with no error.
\<close>

theorem trust_computation:
  "result_trusted (verifyCertificate pki now cert) =
     (issuer cert \<in> trustedIssuers pki \<or> isPrivate cert)
   \<and> (\<not> result_trusted (verifyCertificate pki now cert) \<longrightarrow>
        result_warnings (verifyCertificate pki now cert) =
          [''Certificate issuer is not in trusted list''])
   \<and> ''Certificate issuer is not in trusted list''
        \<notin> set (errors (verifyCertificate pki now cert))
   \<and> errors (verifyCertificate pki now cert) =
       errors (verifyCertificate pki' now (cert\<lparr>issuer := i, isPrivate := b\<rparr>))
   \<and> valid (verifyCertificate pki now cert) =
       valid (verifyCertificate pki' now (cert\<lparr>issuer := i, isPrivate := b\<rparr>))
   \<and> (\<not> result_trusted (verifyCertificate pki now cert)
       \<and> \<not> date_gt (validFrom cert) (DateTime now) \<and> \<not> date_lt (validTo cert) (DateTime now)
       \<longrightarrow> valid (verifyCertificate pki now cert)
          \<and> errors (verifyCertificate pki now cert) = [])"
  by (auto simp: verifyCertificate_errors verifyCertificate_valid verifyCertificate_trusted
      verifyCertificate_warnings)

theorem trust_computation_witness:
  "\<not> result_trusted (verifyCertificate new_PKIManager 1000 (site_cert (DateTime 0) (DateTime 5000)))
   \<and> result_warnings (verifyCertificate new_PKIManager 1000 (site_cert (DateTime 0) (DateTime 5000)))
       = [''Certificate issuer is not in trusted list'']
   \<and> errors (verifyCertificate new_PKIManager 1000 (site_cert (DateTime 0) (DateTime 5000))) = []
   \<and> valid (verifyCertificate new_PKIManager 1000 (site_cert (DateTime 0) (DateTime 5000)))
   \<and> result_trusted (verifyCertificate (addTrustedIssuer ''CN=Unknown CA'' new_PKIManager) 1000
        (site_cert (DateTime 0) (DateTime 5000)))
   \<and> result_trusted (verifyCertificate new_PKIManager 1000
        ((site_cert (DateTime 0) (DateTime 5000))\<lparr>isPrivate := True\<rparr>))"
proof -
  let ?c = "site_cert (DateTime 0) (DateTime 5000)"
  note T = trust_computation [where pki = new_PKIManager and now = 1000 and cert = ?c]
  have i: "issuer ?c \<notin> trustedIssuers new_PKIManager" and p: "\<not> isPrivate ?c"
    by (simp_all add: site_cert_def new_PKIManager_def)
  have w: "\<not> date_gt (validFrom ?c) (DateTime 1000)" "\<not> date_lt (validTo ?c) (DateTime 1000)"
    by (simp_all add: site_cert_def)
  from T i p have 1: "\<not> result_trusted (verifyCertificate new_PKIManager 1000 ?c)"
    by blast
  from T 1 have 2: "result_warnings (verifyCertificate new_PKIManager 1000 ?c)
       = [''Certificate issuer is not in trusted list'']"
    by blast
  from T 1 w have 3: "errors (verifyCertificate new_PKIManager 1000 ?c) = []
     \<and> valid (verifyCertificate new_PKIManager 1000 ?c)"
    by blast
  have 4: "result_trusted (verifyCertificate (addTrustedIssuer ''CN=Unknown CA'' new_PKIManager) 1000 ?c)"
    using trust_computation [where pki = "addTrustedIssuer ''CN=Unknown CA'' new_PKIManager"
        and now = 1000 and cert = ?c]
    by (simp add: site_cert_def addTrustedIssuer_def)
  have 5: "result_trusted (verifyCertificate new_PKIManager 1000 (?c\<lparr>isPrivate := True\<rparr>))"
    using trust_computation [where pki = new_PKIManager and now = 1000
        and cert = "?c\<lparr>isPrivate := True\<rparr>"]
    by simp
  show ?thesis using 1 2 3 4 5 by simp
qed

subsection \<open>The handler registry\<close>

lemma accessors_mk_handler [simp]:
  "getState ((mk_handler c rt)\<lparr>state := s\<rparr>) = Returned s"
  "getType ((mk_handler c rt)\<lparr>state := s\<rparr>) = Returned (net_type c)"
  "isEnabled ((mk_handler c rt)\<lparr>state := s\<rparr>) = Returned (enabled c)"
  "getState (mk_handler c rt) = Returned Disconnected"
  "getType (mk_handler c rt) = Returned (net_type c)"
  "isEnabled (mk_handler c rt) = Returned (enabled c)"
  by (simp_all add: getState_def getType_def isEnabled_def mk_handler_def base_getState_def
      base_getType_def base_isEnabled_def)

text \<open>The definitions a run of the built-in handlers unfolds.\<close>

lemmas handler_eval =
  getState_def getType_def isEnabled_def base_getState_def base_getType_def base_isEnabled_def
  connect_def disconnect_def route_handler_def mk_handler_def simulated_connect_def
  simulated_disconnect_def prefix_route_def ClearnetHandler_def TorHandler_def I2PHandler_def
  GNUnetHandler_def DVPNHandler_def spread_def disabled_config_def connected_tor_off_def Let_def

lemma with_handler_returned:
  "getType h = Returned t \<Longrightarrow> with_handler h r = r\<lparr>handlers := AList.update t h (handlers r)\<rparr>"
  by (simp add: with_handler_def registerHandler_def)

lemma has_handler_with_handler:
  "getType h = Returned t' \<Longrightarrow> has_handler (with_handler h r) t = (t = t' \<or> has_handler r t)"
  by (simp add: with_handler_returned has_handler_def update_conv')

lemma defaultNetwork_with_handler [simp]:
  "defaultNetwork (with_handler h r) = defaultNetwork r"
  by (simp add: with_handler_def registerHandler_def split: outcome.splits)

lemma getType_builtin [simp]:
  "getType (ClearnetHandler None) = Returned Clearnet"
  "getType (TorHandler None) = Returned Tor"
  "getType (I2PHandler None) = Returned I2P"
  "getType (GNUnetHandler None) = Returned GNUnet"
  "getType (DVPNHandler None) = Returned DVPN"
  "getType (TorHandler (Some disabled_config)) = Returned Tor"
  by (simp_all add: ClearnetHandler_def TorHandler_def I2PHandler_def
      GNUnetHandler_def DVPNHandler_def spread_def disabled_config_def)

lemma isEnabled_builtin [simp]:
  "isEnabled (ClearnetHandler None) = Returned True"
  "isEnabled (TorHandler None) = Returned True"
  "isEnabled (I2PHandler None) = Returned True"
  "isEnabled (TorHandler (Some disabled_config)) = Returned False"
  by (simp_all add: ClearnetHandler_def TorHandler_def I2PHandler_def spread_def
      disabled_config_def)

lemma has_handler_empty:
  "has_handler \<lparr>handlers = [], defaultNetwork = d\<rparr> t = False"
  by (simp add: has_handler_def)

lemma new_UnifiedRouter_with_handler:
  "new_UnifiedRouter =
     with_handler (ClearnetHandler None) \<lparr>handlers = [], defaultNetwork = Clearnet\<rparr>"
  by (simp add: new_UnifiedRouter_def with_handler_def)

lemma has_handler_new: "has_handler new_UnifiedRouter t = (t = Clearnet)"
  by (simp add: new_UnifiedRouter_with_handler has_handler_with_handler has_handler_empty)

lemma has_handler_full: "has_handler full_router t = (t \<noteq> Custom)"
  by (cases t) (simp_all add: full_router_def has_handler_with_handler has_handler_new)

lemma has_handler_registered:
  "has_handler r t = (t \<in> set (getRegisteredNetworks r))"
  by (simp add: has_handler_def getRegisteredNetworks_def map_of_eq_None_iff)

lemma router_ok_registerHandler: "router_ok r \<Longrightarrow> router_ok (snd (registerHandler h r))"
  by (simp add: router_ok_def registerHandler_def distinct_update split: outcome.splits)

lemma router_ok_with_handler: "router_ok r \<Longrightarrow> router_ok (with_handler h r)"
  by (simp add: with_handler_def router_ok_registerHandler)

lemma router_ok_new: "router_ok new_UnifiedRouter"
  unfolding new_UnifiedRouter_with_handler
  by (rule router_ok_with_handler) (simp add: router_ok_def)

lemma router_ok_unregisterHandler: "router_ok r \<Longrightarrow> router_ok (snd (unregisterHandler t r))"
  by (simp add: router_ok_def unregisterHandler_def distinct_delete)

lemma builtin_connect:
  "connect (mk_handler c rt) = (Returned True, (mk_handler c rt)\<lparr>state := Connected\<rparr>)"
  by (simp add: connect_def mk_handler_def simulated_connect_def)

lemma builtin_disconnect:
  "disconnect ((mk_handler c rt)\<lparr>state := s\<rparr>) = (Returned (), mk_handler c rt)"
  by (simp add: disconnect_def mk_handler_def simulated_disconnect_def)

lemma handlers_new:
  "handlers new_UnifiedRouter = [(Clearnet, ClearnetHandler None)]"
  by (simp add: new_UnifiedRouter_with_handler with_handler_returned)

lemma handlers_mixed:
  "handlers mixed_router =
     [(Clearnet, ClearnetHandler None), (Tor, TorHandler (Some disabled_config)),
      (I2P, I2PHandler None)]"
  by (simp add: mixed_router_def tor_off_router_def with_handler_returned handlers_new)

lemma connected_tor_off_eq:
  "connected_tor_off = (TorHandler (Some disabled_config))\<lparr>state := Connected\<rparr>"
  by (simp add: connected_tor_off_def TorHandler_def builtin_connect Let_def)

lemma getType_connected_tor_off [simp]: "getType connected_tor_off = Returned Tor"
  by (simp add: connected_tor_off_eq TorHandler_def Let_def spread_def disabled_config_def)

lemma handlers_stale:
  "handlers stale_router =
     [(Clearnet, ClearnetHandler None), (Tor, connected_tor_off)]"
  by (simp add: stale_router_def with_handler_returned handlers_new)

lemma summary_stale:
  "handler_summary stale_router =
     [(Clearnet, Returned True, Returned Disconnected), (Tor, Returned False, Returned Connected)]"
  by (simp add: handler_summary_def handlers_stale handler_eval)

subsection \<open>Selection by security level\<close>

text \<open>
  C7. With handlers for clearnet, tor, i2p, dvpn and gnunet registered and clearnet the
  default, maximum selects tor, elevated selects dvpn and standard selects clearnet. In
  general maximum takes tor, else i2p, else the default; elevated takes dvpn, else
  gnunet, else tor, else the default; standard takes the default.
\<close>

theorem security_level_table:
  "(has_handler r Clearnet \<and> has_handler r Tor \<and> has_handler r I2P \<and> has_handler r DVPN
      \<and> has_handler r GNUnet \<and> defaultNetwork r = Clearnet \<longrightarrow>
        selectNetworkForSecurity Maximum r = Tor
        \<and> selectNetworkForSecurity Elevated r = DVPN
        \<and> selectNetworkForSecurity Standard r = Clearnet)
   \<and> selectNetworkForSecurity Maximum r =
       (if Tor \<in> set (getRegisteredNetworks r) then Tor
        else if I2P \<in> set (getRegisteredNetworks r) then I2P
        else defaultNetwork r)
   \<and> selectNetworkForSecurity Elevated r =
       (if DVPN \<in> set (getRegisteredNetworks r) then DVPN
        else if GNUnet \<in> set (getRegisteredNetworks r) then GNUnet
        else if Tor \<in> set (getRegisteredNetworks r) then Tor
        else defaultNetwork r)
   \<and> selectNetworkForSecurity Standard r = defaultNetwork r"
  by (simp add: selectNetworkForSecurity_def has_handler_registered)

theorem security_level_table_witness:
  "has_handler full_router Clearnet \<and> has_handler full_router Tor \<and> has_handler full_router I2P
   \<and> has_handler full_router DVPN \<and> has_handler full_router GNUnet
   \<and> defaultNetwork full_router = Clearnet
   \<and> selectNetworkForSecurity Maximum full_router = Tor
   \<and> selectNetworkForSecurity Elevated full_router = DVPN
   \<and> selectNetworkForSecurity Standard full_router = Clearnet
   \<and> selectNetworkForSecurity Maximum new_UnifiedRouter = Clearnet"
proof -
  have d: "defaultNetwork full_router = Clearnet" "defaultNetwork new_UnifiedRouter = Clearnet"
    by (simp_all add: full_router_def new_UnifiedRouter_with_handler)
  have n: "Tor \<notin> set (getRegisteredNetworks new_UnifiedRouter)"
    "I2P \<notin> set (getRegisteredNetworks new_UnifiedRouter)"
    using has_handler_new [of Tor] has_handler_new [of I2P]
    by (simp_all add: has_handler_registered)
  show ?thesis
    using d n security_level_table [of full_router] security_level_table [of new_UnifiedRouter]
    by (simp add: has_handler_full)
qed

subsection \<open>route\<close>

text \<open>\<open>includes_str\<close> is the substring test.\<close>

lemma includes_str_iff: "includes_str s w \<longleftrightarrow> (\<exists>ps ss. s = ps @ w @ ss)"
proof (induction s)
  case Nil
  then show ?case by auto
next
  case (Cons c cs)
  show ?case
  proof
    assume "includes_str (c # cs) w"
    then consider "prefix w (c # cs)" | "includes_str cs w" by auto
    then show "\<exists>ps ss. c # cs = ps @ w @ ss"
    proof cases
      case 1
      then obtain ss where "c # cs = w @ ss" by (auto simp: prefix_def)
      then have "c # cs = [] @ w @ ss" by simp
      then show ?thesis by blast
    next
      case 2
      with Cons.IH obtain ps ss where "cs = ps @ w @ ss" by blast
      then have "c # cs = (c # ps) @ w @ ss" by simp
      then show ?thesis by blast
    qed
  next
    assume "\<exists>ps ss. c # cs = ps @ w @ ss"
    then obtain ps ss where e: "c # cs = ps @ w @ ss" by blast
    show "includes_str (c # cs) w"
    proof (cases ps)
      case Nil
      with e have "prefix w (c # cs)" by (simp add: prefix_def)
      then show ?thesis by simp
    next
      case (Cons p ps')
      with e have "cs = ps' @ w @ ss" by simp
      with Cons.IH have "includes_str cs w" by blast
      then show ?thesis by simp
    qed
  qed
qed





subsection \<open>connectAll and disconnectAll\<close>

lemma update_fresh:
  "k \<notin> fst ` set al \<Longrightarrow> AList.update k v al = al @ [(k, v)]"
  by (induction al) auto

lemma connectAll_loop_returns:
  assumes "distinct (map fst hs)"
    and "fst ` set hs \<inter> fst ` set res = {}"
    and "\<forall>e \<in> set hs. returns (isEnabled (snd e))
           \<and> (isEnabled (snd e) = Returned True \<longrightarrow> returns (fst (connect (snd e))))"
  shows "connectAll_loop hs res = (Returned (res @ map connect_report hs), map connect_entry hs)"
  using assms
proof (induction hs arbitrary: res)
  case Nil
  then show ?case by simp
next
  case (Cons e hs)
  obtain t h where e: "e = (t, h)" by (cases e)
  from Cons.prems e have fresh: "t \<notin> fst ` set res" by auto
  from Cons.prems e have "returns (isEnabled h)" by simp
  then obtain en where en: "isEnabled h = Returned en" by (cases "isEnabled h") auto
  show ?case
  proof (cases en)
    case False
    let ?res = "AList.update t False res"
    have res: "?res = res @ [(t, False)]" using fresh by (rule update_fresh)
    have "fst ` set hs \<inter> fst ` set ?res = {}"
      using Cons.prems e by (auto simp: res)
    with Cons.IH [of ?res] Cons.prems
    have "connectAll_loop hs ?res = (Returned (?res @ map connect_report hs), map connect_entry hs)"
      by simp
    with False en e res show ?thesis
      by (simp add: connect_report_def connect_entry_def)
  next
    case True
    with Cons.prems e en have "returns (fst (connect h))" by simp
    then obtain b h' where c: "connect h = (Returned b, h')"
      by (cases "connect h"; cases "fst (connect h)") auto
    let ?res = "AList.update t b res"
    have res: "?res = res @ [(t, b)]" using fresh by (rule update_fresh)
    have "fst ` set hs \<inter> fst ` set ?res = {}"
      using Cons.prems e by (auto simp: res)
    with Cons.IH [of ?res] Cons.prems
    have "connectAll_loop hs ?res = (Returned (?res @ map connect_report hs), map connect_entry hs)"
      by simp
    with True en e res c show ?thesis
      by (simp add: connect_report_def connect_entry_def)
  qed
qed

lemma disconnectAll_loop_returns:
  assumes "\<forall>e \<in> set hs. returns (fst (disconnect (snd e)))"
  shows "disconnectAll_loop hs = (Returned (), map disconnect_entry hs)"
  using assms
proof (induction hs)
  case Nil
  then show ?case by simp
next
  case (Cons e hs)
  obtain t h where e: "e = (t, h)" by (cases e)
  with Cons.prems have "returns (fst (disconnect h))" by simp
  then obtain h' where d: "disconnect h = (Returned (), h')"
    by (cases "disconnect h"; cases "fst (disconnect h)") auto
  from Cons have "disconnectAll_loop hs = (Returned (), map disconnect_entry hs)" by simp
  with e d show ?case by (simp add: disconnect_entry_def)
qed

text \<open>
  C9, as the claim states it, fails for \<^verbatim>\<open>disconnectAll\<close>: it does not skip a disabled
  handler. Here a disabled Tor handler in state connected is disconnected by it.
\<close>

theorem disconnectAll_reaches_disabled_handler:
  "handler_summary stale_router =
     [(Clearnet, Returned True, Returned Disconnected), (Tor, Returned False, Returned Connected)]
   \<and> fst (disconnectAll stale_router) = Returned ()
   \<and> handler_summary (snd (disconnectAll stale_router)) =
       [(Clearnet, Returned True, Returned Disconnected),
        (Tor, Returned False, Returned Disconnected)]"
  using summary_stale
  by (simp add: disconnectAll_def handlers_stale handler_summary_def handler_eval)

text \<open>
  C9, amended. When no handler's \<^verbatim>\<open>isEnabled\<close> throws and the \<^verbatim>\<open>connect\<close> of no
  enabled handler throws, connectAll returns, having called \<^verbatim>\<open>connect\<close> on every
  enabled handler and on no disabled one, and reports for each handler, in the order of
  registration, the result of its \<^verbatim>\<open>connect\<close> if it is enabled and false if it is
  disabled. When no \<^verbatim>\<open>disconnect\<close> throws, disconnectAll returns, having called
  \<^verbatim>\<open>disconnect\<close> on every handler, enabled or not.
\<close>

theorem connect_disconnect_all:
  "(router_ok r
      \<and> (\<forall>(t, h) \<in> set (handlers r).
            returns (isEnabled h)
            \<and> (isEnabled h = Returned True \<longrightarrow> returns (fst (connect h))))
      \<longrightarrow> connectAll r =
            (Returned (map (\<lambda>(t, h). (t, isEnabled h = Returned True
                                          \<and> fst (connect h) = Returned True))
                         (handlers r)),
             r\<lparr>handlers := map (\<lambda>(t, h). (t, if isEnabled h = Returned True
                                               then snd (connect h) else h))
                                (handlers r)\<rparr>))
   \<and> ((\<forall>(t, h) \<in> set (handlers r). returns (fst (disconnect h)))
      \<longrightarrow> disconnectAll r =
            (Returned (),
             r\<lparr>handlers := map (\<lambda>(t, h). (t, snd (disconnect h))) (handlers r)\<rparr>))"
proof -
  have r: "connect_report =
      (\<lambda>(t, h). (t, isEnabled h = Returned True \<and> fst (connect h) = Returned True))"
    and c: "connect_entry =
      (\<lambda>(t, h). (t, if isEnabled h = Returned True then snd (connect h) else h))"
    and d: "disconnect_entry = (\<lambda>(t, h). (t, snd (disconnect h)))"
    by (auto simp: connect_report_def connect_entry_def disconnect_entry_def fun_eq_iff)
  have "connectAll r =
      (Returned (map connect_report (handlers r)), r\<lparr>handlers := map connect_entry (handlers r)\<rparr>)"
    if "router_ok r"
      and "\<forall>(t, h) \<in> set (handlers r).
            returns (isEnabled h)
            \<and> (isEnabled h = Returned True \<longrightarrow> returns (fst (connect h)))"
    using that connectAll_loop_returns [of "handlers r" "[]"]
    by (simp add: connectAll_def router_ok_def case_prod_beta)
  moreover have "disconnectAll r =
      (Returned (), r\<lparr>handlers := map disconnect_entry (handlers r)\<rparr>)"
    if "\<forall>(t, h) \<in> set (handlers r). returns (fst (disconnect h))"
    using that disconnectAll_loop_returns [of "handlers r"]
    by (simp add: disconnectAll_def case_prod_beta)
  ultimately show ?thesis
    unfolding r c d by blast
qed

theorem connect_disconnect_all_witness:
  "router_ok mixed_router
   \<and> handler_summary mixed_router =
       [(Clearnet, Returned True, Returned Disconnected),
        (Tor, Returned False, Returned Disconnected),
        (I2P, Returned True, Returned Disconnected)]
   \<and> fst (connectAll mixed_router) = Returned [(Clearnet, True), (Tor, False), (I2P, True)]
   \<and> handler_summary (snd (connectAll mixed_router)) =
       [(Clearnet, Returned True, Returned Connected),
        (Tor, Returned False, Returned Disconnected),
        (I2P, Returned True, Returned Connected)]
   \<and> fst (disconnectAll stale_router) = Returned ()
   \<and> handler_summary (snd (disconnectAll stale_router)) =
       [(Clearnet, Returned True, Returned Disconnected),
        (Tor, Returned False, Returned Disconnected)]"
proof -
  have ok: "router_ok mixed_router"
    by (simp add: mixed_router_def tor_off_router_def router_ok_with_handler router_ok_new)
  have c: "\<forall>(t, h) \<in> set (handlers mixed_router).
      returns (isEnabled h) \<and> (isEnabled h = Returned True \<longrightarrow> returns (fst (connect h)))"
    by (simp add: handlers_mixed handler_eval)
  have d: "\<forall>(t, h) \<in> set (handlers stale_router). returns (fst (disconnect h))"
    by (simp add: handlers_stale handler_eval)
  from connect_disconnect_all [of mixed_router] ok c
  have 1: "connectAll mixed_router =
            (Returned (map (\<lambda>(t, h). (t, isEnabled h = Returned True
                                          \<and> fst (connect h) = Returned True))
                         (handlers mixed_router)),
             mixed_router\<lparr>handlers :=
               map (\<lambda>(t, h). (t, if isEnabled h = Returned True then snd (connect h) else h))
                   (handlers mixed_router)\<rparr>)"
    by blast
  from connect_disconnect_all [of stale_router] d
  have 2: "disconnectAll stale_router =
            (Returned (),
             stale_router\<lparr>handlers :=
               map (\<lambda>(t, h). (t, snd (disconnect h))) (handlers stale_router)\<rparr>)"
    by blast
  have s: "handler_summary mixed_router =
       [(Clearnet, Returned True, Returned Disconnected),
        (Tor, Returned False, Returned Disconnected),
        (I2P, Returned True, Returned Disconnected)]"
    by (simp add: handler_summary_def handlers_mixed handler_eval)
  have 3: "fst (connectAll mixed_router) = Returned [(Clearnet, True), (Tor, False), (I2P, True)]"
    by (simp add: 1 handlers_mixed handler_eval)
  have 4: "handler_summary (snd (connectAll mixed_router)) =
       [(Clearnet, Returned True, Returned Connected),
        (Tor, Returned False, Returned Disconnected),
        (I2P, Returned True, Returned Connected)]"
    by (simp add: 1 handlers_mixed handler_summary_def handler_eval)
  have 5: "handler_summary (snd (disconnectAll stale_router)) =
       [(Clearnet, Returned True, Returned Disconnected),
        (Tor, Returned False, Returned Disconnected)]"
    by (simp add: 2 handlers_stale handler_summary_def handler_eval)
  show ?thesis using ok s 2 3 4 5 by simp
qed

end
